theory Spec2Isabelle
  imports Complex_Main "HOL-Library.AList" "HOL-Library.Char_ord" "HOL-Library.List_Lexorder"
begin

section \<open>Python values and exceptions\<close>

text \<open>
  The opportunity-cost bidding agent of \<^verbatim>\<open>dummy_algorithm.py\<close>. Python floats are
  modelled by \<^typ>\<open>real\<close> (exact arithmetic), raised exceptions by the left summand of
  a result type. The payload of an exception is the message the source builds.
\<close>

datatype error =
    ValueError string
  | TypeError string
  | ImportError string
  | AssertionError string
  | StopIteration
  | IndexError
  | KeyError
  | ZeroDivisionError

definition ebind :: "error + 'a \<Rightarrow> ('a \<Rightarrow> error + 'b) \<Rightarrow> error + 'b" where
  "ebind m f = (case m of Inl e \<Rightarrow> Inl e | Inr x \<Rightarrow> f x)"

section \<open>Python built-ins used by the agent\<close>

text \<open>
  \<^verbatim>\<open>max(xs)\<close> and \<^verbatim>\<open>min(xs)\<close> raise \<^verbatim>\<open>ValueError\<close> on an empty sequence;
  \<^verbatim>\<open>d[k]\<close> raises \<^verbatim>\<open>KeyError\<close> on a missing key; a \<^verbatim>\<open>for\<close> loop whose body may
  raise stops at the first exception.
\<close>

definition py_max :: "'a::linorder list \<Rightarrow> error + 'a" where
  "py_max xs =
     (case xs of
        [] \<Rightarrow> Inl (ValueError ''max() arg is an empty sequence'')
      | x # rest \<Rightarrow> Inr (foldl max x rest))"

definition py_min :: "'a::linorder list \<Rightarrow> error + 'a" where
  "py_min xs =
     (case xs of
        [] \<Rightarrow> Inl (ValueError ''min() arg is an empty sequence'')
      | x # rest \<Rightarrow> Inr (foldl min x rest))"

definition dict_get :: "('k \<times> 'v) list \<Rightarrow> 'k \<Rightarrow> error + 'v" where
  "dict_get d k = (case map_of d k of None \<Rightarrow> Inl KeyError | Some v \<Rightarrow> Inr v)"

fun efoldl :: "('s \<Rightarrow> 'a \<Rightarrow> error + 's) \<Rightarrow> 's \<Rightarrow> 'a list \<Rightarrow> error + 's" where
  "efoldl f s [] = Inr s"
| "efoldl f s (x # xs) = (case f s x of Inl e \<Rightarrow> Inl e | Inr s' \<Rightarrow> efoldl f s' xs)"

fun emap :: "('a \<Rightarrow> error + 'b) \<Rightarrow> 'a list \<Rightarrow> error + 'b list" where
  "emap f [] = Inr []"
| "emap f (x # xs) =
     (case f x of
        Inl e \<Rightarrow> Inl e
      | Inr y \<Rightarrow> (case emap f xs of Inl e \<Rightarrow> Inl e | Inr ys \<Rightarrow> Inr (y # ys)))"

text \<open>
  Indexing and slicing with Python's treatment of negative and out-of-range bounds:
  \<^verbatim>\<open>xs[i]\<close> counts a negative index from the end and raises \<^verbatim>\<open>IndexError\<close> outside
  the list; a slice clamps its bounds and never raises.
\<close>

definition py_index :: "'a list \<Rightarrow> int \<Rightarrow> error + 'a" where
  "py_index xs i =
     (let k = (if i < 0 then i + int (length xs) else i)
      in if k < 0 \<or> int (length xs) \<le> k then Inl IndexError else Inr (xs ! nat k))"

definition slice_bound :: "nat \<Rightarrow> int \<Rightarrow> nat" where
  "slice_bound n i = (if i < 0 then nat (max 0 (i + int n)) else min n (nat i))"

definition py_slice :: "'a list \<Rightarrow> int \<Rightarrow> int \<Rightarrow> 'a list" where
  "py_slice xs lo hi =
     take (slice_bound (length xs) hi - slice_bound (length xs) lo)
          (drop (slice_bound (length xs) lo) xs)"

definition py_slice_from :: "'a list \<Rightarrow> int \<Rightarrow> 'a list" where
  "py_slice_from xs lo = drop (slice_bound (length xs) lo) xs"

text \<open>
  The generator \<^verbatim>\<open>(index for index, value in enumerate(xs) if P(value))\<close>, and the
  three ways the source consumes it: \<^verbatim>\<open>next(g)\<close> raises \<^verbatim>\<open>StopIteration\<close> when the
  generator is empty, \<^verbatim>\<open>next(g, None)\<close> and \<^verbatim>\<open>max(g, default=None)\<close> give \<^verbatim>\<open>None\<close>.
\<close>

definition matching_indices :: "('a \<Rightarrow> bool) \<Rightarrow> 'a list \<Rightarrow> nat list" where
  "matching_indices P xs = map fst (filter (\<lambda>iv. P (snd iv)) (enumerate 0 xs))"

definition next_raise :: "nat list \<Rightarrow> error + nat" where
  "next_raise g = (case g of [] \<Rightarrow> Inl StopIteration | k # _ \<Rightarrow> Inr k)"

definition next_default :: "nat list \<Rightarrow> nat option" where
  "next_default g = (case g of [] \<Rightarrow> None | k # _ \<Rightarrow> Some k)"

definition max_default :: "nat list \<Rightarrow> nat option" where
  "max_default g = (case g of [] \<Rightarrow> None | k # rest \<Rightarrow> Some (foldl max k rest))"

text \<open>\<^verbatim>\<open>if not j: j = d\<close> for an index that may be \<^verbatim>\<open>None\<close>: zero is falsy too.\<close>

definition if_not :: "int option \<Rightarrow> int \<Rightarrow> int" where
  "if_not j d = (case j of None \<Rightarrow> d | Some v \<Rightarrow> if v = 0 then d else v)"

definition py_truediv :: "real \<Rightarrow> real \<Rightarrow> error + real" where
  "py_truediv a b = (if b = 0 then Inl ZeroDivisionError else Inr (a / b))"

definition unsupported_plus :: "string \<Rightarrow> string \<Rightarrow> string" where
  "unsupported_plus a b =
     ''unsupported operand type(s) for +: '' @ [CHR 0x27] @ a @ [CHR 0x27] @ '' and ''
       @ [CHR 0x27] @ b @ [CHR 0x27]"

text \<open>\<^verbatim>\<open>{k: v for k in ks}\<close> and \<^verbatim>\<open>d.update(e)\<close>.\<close>

definition dict_fromkeys :: "'k list \<Rightarrow> 'v \<Rightarrow> ('k \<times> 'v) list" where
  "dict_fromkeys ks v = foldl (\<lambda>d k. AList.update k v d) [] ks"

definition dict_update_all :: "('k \<times> 'v) list \<Rightarrow> ('k \<times> 'v) list \<Rightarrow> ('k \<times> 'v) list" where
  "dict_update_all d e = foldl (\<lambda>d kv. AList.update (fst kv) (snd kv) d) d e"

text \<open>
  The values an offer dictionary holds. \<^verbatim>\<open>isinstance(v, int)\<close> is true of a
  \<^verbatim>\<open>bool\<close> as well.
\<close>

datatype pyval = PNone | PBool bool | PInt int | PFloat real | PStr string | PList "pyval list"

definition type_name :: "pyval \<Rightarrow> string" where
  "type_name v =
     (case v of
        PNone \<Rightarrow> ''NoneType'' | PBool _ \<Rightarrow> ''bool'' | PInt _ \<Rightarrow> ''int''
      | PFloat _ \<Rightarrow> ''float'' | PStr _ \<Rightarrow> ''str'' | PList _ \<Rightarrow> ''list'')"

definition class_repr :: "string \<Rightarrow> string" where
  "class_repr n = ''<class '' @ [CHR 0x27] @ n @ [CHR 0x27] @ ''>''"

definition is_int :: "pyval \<Rightarrow> bool" where
  "is_int v = (case v of PInt _ \<Rightarrow> True | PBool _ \<Rightarrow> True | _ \<Rightarrow> False)"

definition is_number :: "pyval \<Rightarrow> bool" where
  "is_number v = (case v of PInt _ \<Rightarrow> True | PBool _ \<Rightarrow> True | PFloat _ \<Rightarrow> True | _ \<Rightarrow> False)"

definition is_list :: "pyval \<Rightarrow> bool" where
  "is_list v = (case v of PList _ \<Rightarrow> True | _ \<Rightarrow> False)"

text \<open>\<^verbatim>\<open>v + n\<close> for an \<^verbatim>\<open>int\<close> \<open>n\<close>: defined on numbers, a \<^verbatim>\<open>TypeError\<close> otherwise.\<close>

definition py_add :: "pyval \<Rightarrow> int \<Rightarrow> error + pyval" where
  "py_add v n =
     (case v of
        PBool b \<Rightarrow> Inr (PInt ((if b then 1 else 0) + n))
      | PInt a \<Rightarrow> Inr (PInt (a + n))
      | PFloat x \<Rightarrow> Inr (PFloat (x + of_int n))
      | PNone \<Rightarrow> Inl (TypeError (unsupported_plus ''NoneType'' ''int''))
      | PStr _ \<Rightarrow> Inl (TypeError (''can only concatenate str (not '' @ [CHR 0x22] @ ''int''
                        @ [CHR 0x22] @ '') to str''))
      | PList _ \<Rightarrow> Inl (TypeError (''can only concatenate list (not '' @ [CHR 0x22] @ ''int''
                        @ [CHR 0x22] @ '') to list'')))"

text \<open>The integer an \<^verbatim>\<open>int\<close> or a \<^verbatim>\<open>bool\<close> stands for in arithmetic.\<close>

definition int_value :: "pyval \<Rightarrow> int" where
  "int_value v = (case v of PInt a \<Rightarrow> a | PBool b \<Rightarrow> (if b then 1 else 0) | _ \<Rightarrow> 0)"

section \<open>The agent and its battery parameters\<close>

text \<open>
  The attributes \<^verbatim>\<open>Agent.__init__\<close> sets from the module constants and the two
  configurable prices.
\<close>

record agent =
  socmax :: real
  socmin :: real
  chmax :: real
  dcmax :: real
  efficiency :: real
  price_ceiling :: real
  price_floor :: real

definition bandit :: agent where
  "bandit = \<lparr> socmax = 608, socmin = 128, chmax = 125, dcmax = 125,
              efficiency = 892 / 1000, price_ceiling = 999, price_floor = 0 \<rparr>"

section \<open>The real-time ledger walk\<close>

text \<open>
  The local variables of \<^verbatim>\<open>_real_time_offer\<close> that the walk over the ledger
  updates, and the warnings it logs (the logger is the only effect of the walk besides
  these variables).
\<close>

datatype 't warning =
    ChargeExceedsHeadroom 't
  | DischargeExceedsAvailable 't
  | FaultyCases
  | SocBelowMin 't
  | SocAboveMax 't

record 't rt_state =
  soc_available :: real
  soc_headroom :: real
  best_dc_price :: real
  best_ch_price :: real
  block_dc_mc :: "('t \<times> real list) list"
  block_dc_mq :: "('t \<times> real list) list"
  block_ch_mc :: "('t \<times> real list) list"
  block_ch_mq :: "('t \<times> real list) list"
  warnings :: "'t warning list"

text \<open>
  \<^verbatim>\<open>soc_available = initial_soc - socmin\<close> etc., lines 198 to 208. The block
  variables are dicts from period to a list, kept in insertion order.
\<close>

definition rt_init :: "agent \<Rightarrow> real \<Rightarrow> 't rt_state" where
  "rt_init ag initial_soc =
     \<lparr> soc_available = initial_soc - socmin ag,
       soc_headroom = socmax ag - initial_soc,
       best_dc_price = price_floor ag,
       best_ch_price = price_ceiling ag,
       block_dc_mc = [], block_dc_mq = [], block_ch_mc = [], block_ch_mq = [],
       warnings = [] \<rparr>"

text \<open>
  The five-way \<^verbatim>\<open>if/elif/else\<close> on one order \<^verbatim>\<open>(mq, mc)\<close>, lines 237 to 263,
  in the source's order of tests.
\<close>

definition order_branch :: "agent \<Rightarrow> 't \<Rightarrow> 't rt_state \<Rightarrow> real \<times> real \<Rightarrow> 't rt_state" where
  "order_branch ag t s order =
     (case order of (mq, mc) \<Rightarrow>
        if - soc_headroom s \<le> mq * 5 / 60 \<and> mq * 5 / 60 < 0 then
          s\<lparr> soc_available := soc_available s + mq * efficiency ag * 5 / 60,
             soc_headroom := soc_headroom s - mq * efficiency ag * 5 / 60,
             best_ch_price := min (best_ch_price s) mc \<rparr>
        else if 0 < mq * 5 / 60 \<and> mq * 5 / 60 \<le> soc_available s then
          s\<lparr> soc_available := soc_available s - mq * 5 / 60,
             soc_headroom := soc_headroom s + mq * 5 / 60,
             best_dc_price := max (best_dc_price s) mc \<rparr>
        else if mq * 5 / 60 < - soc_headroom s then
          s\<lparr> warnings := warnings s @ [ChargeExceedsHeadroom t],
             soc_headroom := 0,
             soc_available := socmax ag - socmin ag,
             best_ch_price := min (best_ch_price s) mc \<rparr>
        else if mq * 5 / 60 > soc_available s then
          s\<lparr> warnings := warnings s @ [DischargeExceedsAvailable t],
             soc_headroom := socmax ag - socmin ag,
             soc_available := 0,
             best_dc_price := max (best_dc_price s) mc \<rparr>
        else
          s\<lparr> warnings := warnings s @ [FaultyCases] \<rparr>)"

text \<open>The two bound checks that follow the branch, lines 265 to 268: warnings only.\<close>

definition bound_warnings :: "'t \<Rightarrow> 't rt_state \<Rightarrow> 't rt_state" where
  "bound_warnings t s =
     (let s1 = (if soc_available s < 0
                then s\<lparr> warnings := warnings s @ [SocBelowMin t] \<rparr> else s)
      in if soc_headroom s1 < 0
         then s1\<lparr> warnings := warnings s1 @ [SocAboveMax t] \<rparr> else s1)"

definition process_order :: "agent \<Rightarrow> 't \<Rightarrow> 't rt_state \<Rightarrow> real \<times> real \<Rightarrow> 't rt_state" where
  "process_order ag t s order = bound_warnings t (order_branch ag t s order)"

text \<open>\<^verbatim>\<open>for i, order in enumerate(en_ledger)\<close>: the orders of one period, in listed order.\<close>

definition process_period :: "agent \<Rightarrow> 't \<Rightarrow> 't rt_state \<Rightarrow> (real \<times> real) list \<Rightarrow> 't rt_state" where
  "process_period ag t s en_ledger = foldl (process_order ag t) s en_ledger"

text \<open>
  The ledger \<^verbatim>\<open>self.resource['ledger'][self.rid]['EN']\<close> is a dict from period to the
  list of its filled orders: an association list in insertion order.
  \<^verbatim>\<open>d[t] = []\<close> is \<^const>\<open>AList.update\<close>; \<^verbatim>\<open>d[t].append(x)\<close> changes the entry
  of a key that is present (every use below follows \<^verbatim>\<open>d[t] = []\<close>).
\<close>

type_synonym 't ledger = "('t \<times> (real \<times> real) list) list"

definition dict_append :: "'k \<Rightarrow> 'v \<Rightarrow> ('k \<times> 'v list) list \<Rightarrow> ('k \<times> 'v list) list" where
  "dict_append k x d = AList.map_entry k (\<lambda>vs. vs @ [x]) d"

text \<open>
  One round of \<^verbatim>\<open>for t in self.market['timestamps']\<close>, lines 212 to 268: the four
  lists of the period are reset and seeded with the zero offers (both arms of the
  membership test append the same four values), then the orders of the period are
  processed if the ledger has the key.
\<close>

definition seed_blocks :: "agent \<Rightarrow> 't \<Rightarrow> 't rt_state \<Rightarrow> 't rt_state" where
  "seed_blocks ag t s =
     s\<lparr> block_ch_mq := dict_append t (chmax ag) (AList.update t [] (block_ch_mq s)),
        block_ch_mc := dict_append t 0 (AList.update t [] (block_ch_mc s)),
        block_dc_mq := dict_append t (dcmax ag) (AList.update t [] (block_dc_mq s)),
        block_dc_mc := dict_append t 0 (AList.update t [] (block_dc_mc s)) \<rparr>"

definition walk_step :: "agent \<Rightarrow> 't ledger \<Rightarrow> 't rt_state \<Rightarrow> 't \<Rightarrow> 't rt_state" where
  "walk_step ag ledger s t =
     (case map_of ledger t of
        None \<Rightarrow> seed_blocks ag t s
      | Some en_ledger \<Rightarrow> process_period ag t (seed_blocks ag t s) en_ledger)"

definition ledger_walk :: "agent \<Rightarrow> 't ledger \<Rightarrow> 't list \<Rightarrow> 't rt_state \<Rightarrow> 't rt_state" where
  "ledger_walk ag ledger timestamps s = foldl (walk_step ag ledger) s timestamps"

section \<open>The real-time offer after the ledger walk\<close>

text \<open>
  Lines 271 to 276: the ledger entries of the periods after the last timestamp widen
  the two best prices.
\<close>

definition post_market_ledger :: "('t::linorder) ledger \<Rightarrow> 't \<Rightarrow> 't ledger" where
  "post_market_ledger ledger t_end = filter (\<lambda>entry. fst entry > t_end) ledger"

definition widen_prices :: "'t rt_state \<Rightarrow> real \<times> real \<Rightarrow> 't rt_state" where
  "widen_prices s order =
     (case order of (mq, mc) \<Rightarrow>
        s\<lparr> best_ch_price := min (best_ch_price s) mc,
           best_dc_price := max (best_dc_price s) mc \<rparr>)"

definition post_market_prices :: "'t ledger \<Rightarrow> 't rt_state \<Rightarrow> 't rt_state" where
  "post_market_prices post s = foldl (\<lambda>s entry. foldl widen_prices s (snd entry)) s post"

text \<open>
  Lines 280 to 292: the capacity of a period that the seeded lists leave open is
  appended at the best known price when it exceeds the tolerance \<^verbatim>\<open>1e-2\<close>.
\<close>

definition residual_step :: "agent \<Rightarrow> 't rt_state \<Rightarrow> 't \<Rightarrow> error + 't rt_state" where
  "residual_step ag s t =
     ebind (dict_get (block_dc_mq s) t) (\<lambda>dc_offered.
       let dc_capacity = dcmax ag - sum_list dc_offered;
           s1 = (if dc_capacity > 1 / 100
                 then s\<lparr> block_dc_mq := dict_append t dc_capacity (block_dc_mq s),
                         block_dc_mc := dict_append t (best_dc_price s) (block_dc_mc s) \<rparr>
                 else s)
       in ebind (dict_get (block_ch_mq s1) t) (\<lambda>ch_offered.
            let ch_capacity = chmax ag - sum_list ch_offered
            in Inr (if ch_capacity > 1 / 100
                    then s1\<lparr> block_ch_mq := dict_append t ch_capacity (block_ch_mq s1),
                             block_ch_mc := dict_append t (best_ch_price s1) (block_ch_mc s1) \<rparr>
                    else s1)))"

text \<open>
  Lines 296 to 297: the post-horizon orders in ledger order, sorted by price,
  highest first. Python's sort is stable under \<^verbatim>\<open>reverse=True\<close>, as is the
  insertion sort on the negated price.
\<close>

definition post_market_sorted :: "'t ledger \<Rightarrow> (real \<times> real) list" where
  "post_market_sorted post = sort_key (\<lambda>tup. - snd tup) (concat (map snd post))"

text \<open>
  Lines 306 to 323: the greedy walk; the state is \<^verbatim>\<open>remaining_capacity\<close>,
  \<^verbatim>\<open>soc_mq\<close> and \<^verbatim>\<open>soc_mc\<close>. The third arm is the \<^verbatim>\<open>break\<close>.
\<close>

fun soc_walk :: "(real \<times> real) list \<Rightarrow> real \<Rightarrow> real list \<Rightarrow> real list
                 \<Rightarrow> real \<times> real list \<times> real list" where
  "soc_walk [] remaining_capacity soc_mq soc_mc = (remaining_capacity, soc_mq, soc_mc)"
| "soc_walk ((mq, mc) # rest) remaining_capacity soc_mq soc_mc =
     (if 0 < mq * 5 / 60 \<and> mq * 5 / 60 \<le> remaining_capacity then
        soc_walk rest (remaining_capacity - mq * 5 / 60) (soc_mq @ [mq]) (soc_mc @ [mc])
      else if 0 < remaining_capacity \<and> remaining_capacity < mq * 5 / 60 then
        soc_walk rest 0 (soc_mq @ [0]) (soc_mc @ [mc])
      else if remaining_capacity < 1 / 100 then
        (remaining_capacity, soc_mq, soc_mc)
      else
        soc_walk rest remaining_capacity soc_mq soc_mc)"

text \<open>Lines 302 to 329: the raw quantity and price lists handed to the binner.\<close>

definition soc_raw :: "agent \<Rightarrow> 't rt_state \<Rightarrow> (real \<times> real) list \<Rightarrow> real list \<times> real list" where
  "soc_raw ag s sorted_orders =
     (case soc_walk sorted_orders (soc_available s) [] [] of
        (remaining_capacity, soc_mq, soc_mc) \<Rightarrow>
          (if remaining_capacity > 1 / 100
           then (soc_mq @ [remaining_capacity] @ [soc_headroom s],
                 soc_mc @ [price_ceiling ag] @ [0])
           else (soc_mq @ [soc_headroom s], soc_mc @ [0])))"

section \<open>Offer dictionaries\<close>

text \<open>
  An offer is the dict \<^verbatim>\<open>offer_out_dict[self.rid]\<close>: string keys, each bound to a
  dict from period to a value. The scalar entries that
  \<^verbatim>\<open>_default_offer_constants\<close> adds are left out: no function modelled here reads
  them. Numbers computed by the real-time path enter the dictionary as floats; no
  code below inspects the tag of a list element.
\<close>

type_synonym 't block = "('t \<times> pyval) list"
type_synonym 't offer = "(string \<times> 't block) list"
type_synonym binner = "pyval list \<Rightarrow> pyval list \<Rightarrow> error + pyval list \<times> pyval list"

definition num_block :: "('t \<times> real list) list \<Rightarrow> 't block" where
  "num_block d = map (\<lambda>entry. (fst entry, PList (map PFloat (snd entry)))) d"

definition default_reserve_offer :: "'t list \<Rightarrow> 't offer" where
  "default_reserve_offer timestamps =
     foldl (\<lambda>res_dict r. AList.update r (dict_fromkeys timestamps (PInt 0)) res_dict) []
       [''cost_rgu'', ''cost_rgd'', ''cost_spr'', ''cost_nsp'']"

definition default_dispatch_capacity :: "agent \<Rightarrow> 't list \<Rightarrow> 't offer" where
  "default_dispatch_capacity ag timestamps =
     AList.update ''dcmax'' (dict_fromkeys timestamps (PFloat (dcmax ag)))
       (AList.update ''chmax'' (dict_fromkeys timestamps (PFloat (chmax ag))) [])"

text \<open>
  \<^verbatim>\<open>_real_time_offer\<close>, lines 197 to 350. The binner \<^verbatim>\<open>ou.Binner.collate\<close> belongs
  to a module outside the repository and is a parameter. \<^verbatim>\<open>max\<close> of the timestamps
  is taken before the walk and raises on an empty list.
\<close>

definition real_time_offer ::
  "agent \<Rightarrow> binner \<Rightarrow> ('t::linorder) list \<Rightarrow> 't ledger \<Rightarrow> real \<Rightarrow> error + 't offer" where
  "real_time_offer ag collate timestamps ledger initial_soc =
     ebind (py_max timestamps) (\<lambda>t_end.
       let s1 = ledger_walk ag ledger timestamps (rt_init ag initial_soc);
           post = post_market_ledger ledger t_end;
           s2 = post_market_prices post s1
       in ebind (efoldl (residual_step ag) s2 timestamps) (\<lambda>s3.
            case soc_raw ag s3 (post_market_sorted post) of (soc_mq, soc_mc) \<Rightarrow>
              ebind (collate (map PFloat soc_mq) (map PFloat soc_mc)) (\<lambda>soc_offer.
                Inr (dict_update_all
                      (dict_update_all
                        [(''block_ch_mc'', num_block (block_ch_mc s3)),
                         (''block_ch_mq'', num_block (block_ch_mq s3)),
                         (''block_dc_mc'', num_block (block_dc_mc s3)),
                         (''block_dc_mq'', num_block (block_dc_mq s3)),
                         (''block_soc_mc'', [(t_end, PList (snd soc_offer))]),
                         (''block_soc_mq'', [(t_end, PList (fst soc_offer))])]
                        (default_reserve_offer timestamps))
                      (default_dispatch_capacity ag timestamps)))))"

text \<open>
  \<^verbatim>\<open>_increase_discharging_offers\<close>, lines 367 to 380. The body of the loop first:
  an \<^verbatim>\<open>int\<close> becomes the float of the sum, a list is shifted element by element, any
  other value raises. The message formats the type of \<^verbatim>\<open>old_block\<close>, the dict.
\<close>

definition shift_offer :: "int \<Rightarrow> pyval \<Rightarrow> error + pyval" where
  "shift_offer adjustment old_offer =
     (if is_int old_offer then Inr (PFloat (of_int (int_value old_offer + adjustment)))
      else case old_offer of
             PList mcs \<Rightarrow> ebind (emap (\<lambda>mc. py_add mc adjustment) mcs) (\<lambda>l. Inr (PList l))
           | _ \<Rightarrow> Inl (TypeError (''discharge block type is unsupported. type=''
                                    @ class_repr ''dict'')))"

definition increase_discharging_offers :: "'t offer \<Rightarrow> int \<Rightarrow> error + 't offer" where
  "increase_discharging_offers offer adjustment =
     ebind (dict_get offer ''block_dc_mc'') (\<lambda>old_block.
       ebind (efoldl (\<lambda>new_block item.
                 ebind (shift_offer adjustment (snd item))
                   (\<lambda>v. Inr (AList.update (fst item) v new_block)))
               [] old_block) (\<lambda>new_block.
         Inr (AList.update ''block_dc_mc'' new_block offer)))"

text \<open>
  \<^verbatim>\<open>make_me_an_offer\<close>, lines 69 to 86: \<^verbatim>\<open>'DAM' in market_type\<close> is a substring
  test. The day-ahead offer comes from \<^verbatim>\<open>ou.compute_offers\<close>, outside the
  repository, a parameter. The log line of the real-time branch formats
  \<^verbatim>\<open>self.market["timestamps"][0]\<close> and raises \<^verbatim>\<open>IndexError\<close> on an empty horizon.
  The result is the dictionary written to the JSON file.
\<close>

fun contains :: "string \<Rightarrow> string \<Rightarrow> bool" where
  "contains sub [] = (sub = [])"
| "contains sub (c # cs) = (take (length sub) (c # cs) = sub \<or> contains sub cs)"

definition make_me_an_offer ::
  "agent \<Rightarrow> binner \<Rightarrow> (('t::linorder) list \<Rightarrow> error + 't offer) \<Rightarrow> string \<Rightarrow> 't list
     \<Rightarrow> 't ledger \<Rightarrow> real \<Rightarrow> error + 't offer" where
  "make_me_an_offer ag collate compute_offers market_type timestamps ledger initial_soc =
     ebind (if contains ''DAM'' market_type then compute_offers timestamps
            else if contains ''RTM'' market_type
                 then ebind (py_index timestamps 0)
                        (\<lambda>t0. real_time_offer ag collate timestamps ledger initial_soc)
            else Inl (ValueError (''Unable to find offer function for market_type=''
                                   @ market_type)))
       (\<lambda>offer. increase_discharging_offers offer 1)"

text \<open>\<^verbatim>\<open>offer[key][t]\<close> of the offer a run produced: the curve of one period.\<close>

definition offer_curve :: "error + 't offer \<Rightarrow> string \<Rightarrow> 't \<Rightarrow> error + pyval" where
  "offer_curve run key t =
     ebind run (\<lambda>offer. ebind (dict_get offer key) (\<lambda>block. dict_get block t))"

section \<open>Opportunity costs\<close>

text \<open>
  \<^verbatim>\<open>_calc_oc_charge\<close>, lines 501 to 529. The search for the next discharging period
  is \<^verbatim>\<open>next\<close> without a default.
\<close>

definition calc_oc_charge :: "agent \<Rightarrow> real list \<Rightarrow> real list \<Rightarrow> nat \<Rightarrow> error + real \<times> real" where
  "calc_oc_charge ag combined_list prices idx =
     ebind (if int idx < int (length combined_list) - 1
            then ebind (next_raise (matching_indices (\<lambda>value. value > 0)
                                      (py_slice_from combined_list (int idx + 1))))
                   (\<lambda>k. Inr (Some (int idx + 1 + int k)))
            else Inr None)
       (\<lambda>j0.
          let j = if_not j0 (min (int idx + 1) (int (length prices) - 1))
          in if idx = 0 then
               ebind (py_min (py_slice prices 1 j)) (\<lambda>m.
               ebind (py_index prices j) (\<lambda>pj.
                 let oc_ch = min m (efficiency ag * pj)
                 in Inr (oc_ch, oc_ch + 1 / 100)))
             else
               ebind (if j = int idx + 1 then
                        ebind (py_min (py_slice prices 0 (int idx))) (\<lambda>arr1. Inr (arr1, 0))
                      else if j = int idx + 2 then
                        ebind (py_min (py_slice prices 0 (int idx))) (\<lambda>arr1.
                        ebind (py_index prices (j - 1)) (\<lambda>arr2. Inr (arr1, arr2)))
                      else
                        ebind (py_min (py_slice prices 0 (int idx))) (\<lambda>arr1.
                        ebind (py_max (py_slice prices (int idx) (j + 1))) (\<lambda>arr2.
                          Inr (arr1, arr2))))
                 (\<lambda>arr.
                    ebind (py_min (py_slice prices 0 (int idx)
                                   @ py_slice_from prices (int idx + 1))) (\<lambda>m.
                    ebind (py_index prices (int idx)) (\<lambda>p.
                      Inr (m * efficiency ag, fst arr * efficiency ag + snd arr - p)))))"

text \<open>\<^verbatim>\<open>_calc_oc_discharge\<close>, lines 531 to 556.\<close>

definition calc_oc_discharge :: "agent \<Rightarrow> real list \<Rightarrow> real list \<Rightarrow> nat \<Rightarrow> error + real \<times> real" where
  "calc_oc_discharge ag combined_list prices idx =
     (let j = if_not (map_option int (max_default (matching_indices (\<lambda>value. value < 0)
                        (py_slice combined_list 0 (int idx - 1))))) 0
      in ebind (if int idx = int (length prices) - 1 then Inr 0
                else py_max (py_slice_from prices (int idx + 1))) (\<lambda>arr1.
         ebind (if j = int idx - 1 then ebind (py_index prices j) (\<lambda>pj. Inr (min pj 0))
                else if j = int idx - 2 then py_index prices (j + 1)
                else py_min (py_slice prices (j + 1) (int idx))) (\<lambda>arr2.
         ebind (py_index prices (int idx)) (\<lambda>p.
         ebind (py_min (py_slice prices j (int idx))) (\<lambda>m.
         ebind (py_truediv m (efficiency ag)) (\<lambda>oc_dis.
           Inr ((p - arr2) * efficiency ag - arr1, oc_dis)))))))"

text \<open>\<^verbatim>\<open>_calc_oc_before_first_charge\<close>, lines 558 to 563.\<close>

definition calc_oc_before_first_charge ::
  "agent \<Rightarrow> real list \<Rightarrow> nat \<Rightarrow> nat \<Rightarrow> error + real \<times> real" where
  "calc_oc_before_first_charge ag prices t1_idx idx =
     ebind (py_min (py_slice prices (int idx) (int t1_idx + 1))) (\<lambda>m1.
     ebind (py_min (py_slice prices 0 (int idx))) (\<lambda>m2.
     ebind (py_truediv m2 (efficiency ag)) (\<lambda>oc_dis.
       Inr (m1 * efficiency ag, oc_dis))))"

text \<open>\<^verbatim>\<open>_calc_oc_after_last_discharge\<close>, lines 565 to 574.\<close>

definition calc_oc_after_last_discharge ::
  "agent \<Rightarrow> real list \<Rightarrow> nat \<Rightarrow> nat \<Rightarrow> error + real \<times> real" where
  "calc_oc_after_last_discharge ag prices t_last idx =
     ebind (if int idx \<le> int (length prices) - 2
            then ebind (py_max (py_slice_from prices (int idx + 1)))
                   (\<lambda>m. Inr (m * efficiency ag))
            else Inr (price_floor ag)) (\<lambda>oc_ch.
     ebind (py_min (py_slice prices (int t_last) (int idx + 1))) (\<lambda>m.
     ebind (py_truediv m (efficiency ag)) (\<lambda>oc_dis.
       Inr (oc_ch, oc_dis))))"

text \<open>
  \<^verbatim>\<open>_calc_oc_between_cycles\<close>, lines 576 to 593. Adding \<^verbatim>\<open>None\<close> to an index is a
  \<^verbatim>\<open>TypeError\<close>.
\<close>

definition calc_oc_between_cycles ::
  "agent \<Rightarrow> real list \<Rightarrow> real list \<Rightarrow> nat \<Rightarrow> error + real \<times> real" where
  "calc_oc_between_cycles ag combined_list prices idx =
     ebind (case next_default (matching_indices (\<lambda>value. value > 0)
                                 (py_slice_from combined_list (int idx))) of
              None \<Rightarrow> Inl (TypeError (unsupported_plus ''int'' ''NoneType''))
            | Some k \<Rightarrow> Inr (int idx + int k)) (\<lambda>j_next.
     ebind (case max_default (matching_indices (\<lambda>value. value < 0)
                                (py_slice combined_list 0 (int idx))) of
              None \<Rightarrow> Inl (TypeError (unsupported_plus ''NoneType'' ''int''))
            | Some k \<Rightarrow> Inr (int k)) (\<lambda>j_prev.
     ebind (if int idx \<le> j_prev + 1 then py_index prices j_prev
            else ebind (py_max (py_slice prices (j_prev + 1) (int idx))) (\<lambda>m.
                 ebind (py_index prices j_prev) (\<lambda>pp.
                   Inr (max (m * efficiency ag) pp)))) (\<lambda>oc_ch.
     ebind (if int idx \<ge> j_next - 1 then
              ebind (py_index prices j_next) (\<lambda>pn.
              ebind (py_index prices (int idx + 1)) (\<lambda>p1.
              ebind (py_truediv p1 (efficiency ag)) (\<lambda>q. Inr (min pn q))))
            else
              ebind (py_index prices j_next) (\<lambda>pn.
              ebind (py_min (py_slice prices (int idx + 1) (j_next + 1))) (\<lambda>m.
              ebind (py_truediv m (efficiency ag)) (\<lambda>q. Inr (min pn q))))) (\<lambda>oc_dis.
       Inr (oc_ch, oc_dis)))))"

text \<open>
  \<^verbatim>\<open>_calculate_opportunity_costs\<close>, lines 436 to 485. \<^verbatim>\<open>dict(zip(time, combined_list))\<close>
  keeps the first position of a repeated key and its last value. One round of the
  loop: the branch for the period, then the debug line, which reads \<^verbatim>\<open>prices[i]\<close>.
\<close>

definition py_dict_zip :: "'k list \<Rightarrow> 'v list \<Rightarrow> ('k \<times> 'v) list" where
  "py_dict_zip ks vs = foldl (\<lambda>d kv. AList.update (fst kv) (snd kv) d) [] (zip ks vs)"

definition oc_period ::
  "agent \<Rightarrow> real list \<Rightarrow> real list \<Rightarrow> nat \<Rightarrow> nat \<Rightarrow> real list \<times> real list \<Rightarrow> nat \<times> real
     \<Rightarrow> error + real list \<times> real list" where
  "oc_period ag combined_list prices t1_ch t_last_dis costs iv =
     (case iv of (i, value) \<Rightarrow>
        ebind (if value < 0 then calc_oc_charge ag combined_list prices i
               else if value > 0 then calc_oc_discharge ag combined_list prices i
               else if i < t1_ch then calc_oc_before_first_charge ag prices t1_ch i
               else if i > t_last_dis then calc_oc_after_last_discharge ag prices t_last_dis i
               else calc_oc_between_cycles ag combined_list prices i) (\<lambda>oc.
        ebind (py_index prices (int i)) (\<lambda>lmp.
          Inr (fst costs @ [fst oc], snd costs @ [snd oc]))))"

definition calculate_opportunity_costs ::
  "agent \<Rightarrow> 't list \<Rightarrow> real list \<Rightarrow> real list \<Rightarrow> real list \<Rightarrow> error + real list \<times> real list" where
  "calculate_opportunity_costs ag time prices charge_mq discharge_mq =
     (let combined_list = map (\<lambda>cd. snd cd - fst cd) (zip charge_mq discharge_mq);
          schedule = py_dict_zip time combined_list
      in case next_default (matching_indices (\<lambda>value. value < 0) (map snd schedule)) of
           None \<Rightarrow> Inl (AssertionError ''t1_ch is not an int'')
         | Some t1_ch \<Rightarrow>
             (case find (\<lambda>i. combined_list ! i > 0) (rev [0..<length combined_list]) of
                None \<Rightarrow> Inl (AssertionError ''t_last_dis is not an int'')
              | Some t_last_dis \<Rightarrow>
                  ebind (efoldl (oc_period ag combined_list prices t1_ch t_last_dis) ([], [])
                           (enumerate 0 (map snd schedule))) (\<lambda>costs.
                    if \<not> sum_list (map abs (fst costs)) > 0
                    then Inl (AssertionError ''calc_oc: charge list has no values'')
                    else if \<not> sum_list (map abs (snd costs)) > 0
                    then Inl (AssertionError ''calc_oc: discharge list has no values'')
                    else Inr costs)))"

section \<open>The dispatch scheduler\<close>

text \<open>
  The linear program \<^verbatim>\<open>_scheduler\<close> hands to the solver, lines 606 to 615, as data:
  the variables \<^verbatim>\<open>solver.NumVar(lb, ub, name)\<close> creates (named \<^verbatim>\<open>c\<close>, \<^verbatim>\<open>d\<close>, \<^verbatim>\<open>b\<close>
  followed by the index), the linear expressions built from them, the objective to
  minimise and the equalities passed to \<^verbatim>\<open>solver.Add\<close>.
\<close>

datatype var = C nat | D nat | B nat

record numvar =
  lb :: real
  ub :: real
  var_name :: var

datatype linexpr =
    Const real
  | Var var
  | Add linexpr linexpr
  | Sub linexpr linexpr
  | Mul real linexpr

fun eval :: "(var \<Rightarrow> real) \<Rightarrow> linexpr \<Rightarrow> real" where
  "eval \<sigma> (Const c) = c"
| "eval \<sigma> (Var v) = \<sigma> v"
| "eval \<sigma> (Add a b) = eval \<sigma> a + eval \<sigma> b"
| "eval \<sigma> (Sub a b) = eval \<sigma> a - eval \<sigma> b"
| "eval \<sigma> (Mul k a) = k * eval \<sigma> a"

record lp =
  numvars :: "numvar list"
  objective :: linexpr
  constraints :: "(linexpr \<times> linexpr) list"

text \<open>
  \<^verbatim>\<open>dasoc[0] = 0\<close> replaces the first entry of the list by the number zero; the
  variable \<^verbatim>\<open>b0\<close> stays in the solver, in no constraint. \<^verbatim>\<open>sum\<close> starts from zero.
\<close>

definition dasoc :: "nat \<Rightarrow> linexpr list" where
  "dasoc number_step = (map (\<lambda>i. Var (B i)) [0..<number_step + 1])[0 := Const 0]"

text \<open>The state of charge at step \<open>t\<close> under an assignment: the value of \<^verbatim>\<open>dasoc[t]\<close>.\<close>

definition dasoc_value :: "(var \<Rightarrow> real) \<Rightarrow> nat \<Rightarrow> nat \<Rightarrow> real" where
  "dasoc_value \<sigma> number_step t = eval \<sigma> (dasoc number_step ! t)"

definition scheduler_lp :: "agent \<Rightarrow> real list \<Rightarrow> lp" where
  "scheduler_lp ag prices =
     (let number_step = length prices
      in \<lparr> numvars =
             map (\<lambda>i. \<lparr> lb = 0, ub = chmax ag, var_name = C i \<rparr>) [0..<number_step]
             @ map (\<lambda>i. \<lparr> lb = 0, ub = dcmax ag, var_name = D i \<rparr>) [0..<number_step]
             @ map (\<lambda>i. \<lparr> lb = 0, ub = socmax ag, var_name = B i \<rparr>) [0..<number_step + 1],
           objective =
             foldl Add (Const 0)
               (map (\<lambda>i. Mul (prices ! i) (Sub (Var (C i)) (Var (D i)))) [0..<number_step]),
           constraints =
             map (\<lambda>i. (Sub (Add (dasoc number_step ! i) (Mul (efficiency ag) (Var (C i))))
                            (Var (D i)),
                        dasoc number_step ! (i + 1))) [0..<number_step] \<rparr>)"

text \<open>An assignment of the variables is feasible: every bound and every equality holds.\<close>

definition lp_feasible :: "lp \<Rightarrow> (var \<Rightarrow> real) \<Rightarrow> bool" where
  "lp_feasible p \<sigma> =
     (list_all (\<lambda>v. lb v \<le> \<sigma> (var_name v) \<and> \<sigma> (var_name v) \<le> ub v) (numvars p)
      \<and> list_all (\<lambda>c. eval \<sigma> (fst c) = eval \<sigma> (snd c)) (constraints p))"

text \<open>
  The solver is outside the repository. \<^verbatim>\<open>CreateSolver\<close> gives \<^verbatim>\<open>None\<close> when the
  backend is missing; \<^verbatim>\<open>Solve()\<close> returns a result status and leaves a value in every
  variable, read by \<^verbatim>\<open>solution_value()\<close>.
\<close>

datatype status = OPTIMAL | FEASIBLE | INFEASIBLE | UNBOUNDED | ABNORMAL | NOT_SOLVED

type_synonym solver = "lp \<Rightarrow> status \<times> (var \<Rightarrow> real)"

text \<open>
  \<^verbatim>\<open>_scheduler\<close>, lines 595 to 633. The value \<^verbatim>\<open>solver.Solve()\<close> returns is dropped:
  the call is an expression statement.
\<close>

definition scheduler :: "agent \<Rightarrow> solver option \<Rightarrow> real list \<Rightarrow> error + real list \<times> real list" where
  "scheduler ag solver prices =
     (case solver of
        None \<Rightarrow> Inl (ImportError ''Scheduler unable to load solver.'')
      | Some solve \<Rightarrow>
          (let number_step = length prices;
               solution_value = snd (solve (scheduler_lp ag prices));
               charge_list = map (\<lambda>i. solution_value (C i)) [0..<number_step];
               discharge_list = map (\<lambda>i. solution_value (D i)) [0..<number_step]
           in if \<not> sum_list (map abs charge_list) > 0
              then Inl (AssertionError ''scheduler: charge list has no values'')
              else if \<not> sum_list (map abs discharge_list) > 0
              then Inl (AssertionError ''scheduler: discharge list has no values'')
              else Inr (charge_list, discharge_list)))"

text \<open>
  \<^verbatim>\<open>_calculate_offer_curve\<close>, lines 487 to 499: the schedule, then its opportunity
  costs. The result is the four attributes it sets, \<^verbatim>\<open>charge_mc\<close>, \<^verbatim>\<open>discharge_mc\<close>,
  \<^verbatim>\<open>charge_mq\<close>, \<^verbatim>\<open>discharge_mq\<close>.
\<close>

definition calculate_offer_curve ::
  "agent \<Rightarrow> solver option \<Rightarrow> 't list \<Rightarrow> real list
     \<Rightarrow> error + (real list \<times> real list) \<times> (real list \<times> real list)" where
  "calculate_offer_curve ag solver time prices =
     ebind (scheduler ag solver prices) (\<lambda>mq.
     ebind (calculate_opportunity_costs ag time prices (fst mq) (snd mq)) (\<lambda>mc.
       Inr (mc, mq)))"

section \<open>Formatting offers\<close>

text \<open>
  \<^verbatim>\<open>_offer_to_dicts\<close>, lines 119 to 143. An argument left at its default is
  \<^verbatim>\<open>None\<close>; \<^verbatim>\<open>None\<close> and the empty list are falsy. Subscripting \<^verbatim>\<open>None\<close> is a
  \<^verbatim>\<open>TypeError\<close>. The periods are strings, the assertion message prints them.
\<close>

definition falsy :: "pyval list option \<Rightarrow> bool" where
  "falsy l = (case l of None \<Rightarrow> True | Some xs \<Rightarrow> xs = [])"

definition subscript :: "pyval list option \<Rightarrow> nat \<Rightarrow> error + pyval" where
  "subscript l i =
     (case l of
        None \<Rightarrow> Inl (TypeError ([CHR 0x27] @ ''NoneType'' @ [CHR 0x27]
                                   @ '' object is not subscriptable''))
      | Some xs \<Rightarrow> py_index xs (int i))"

definition offer_period ::
  "binner \<Rightarrow> pyval list option \<Rightarrow> pyval list option \<Rightarrow> string block \<times> string block
     \<Rightarrow> nat \<times> string \<Rightarrow> error + string block \<times> string block" where
  "offer_period collate mq_list mc_list dicts it =
     (case it of (i, time) \<Rightarrow>
        ebind (subscript mc_list i) (\<lambda>mc.
        ebind (subscript mq_list i) (\<lambda>mq.
          if is_number mc \<and> is_number mq then
            Inr (AList.update time mq (fst dicts), AList.update time mc (snd dicts))
          else
            (case (mc, mq) of
               (PList mcs, PList mqs) \<Rightarrow>
                 if length mcs \<noteq> length mqs
                 then Inl (AssertionError
                             (''charge mc and mq have different length, period '' @ time))
                 else ebind (collate mqs mcs) (\<lambda>offer.
                        Inr (AList.update time (PList (fst offer)) (fst dicts),
                             AList.update time (PList (snd offer)) (snd dicts)))
             | _ \<Rightarrow>
                 Inl (TypeError (''unsupported charge offer types: mc is ''
                                  @ class_repr (type_name mc) @ '', mq is ''
                                  @ class_repr (type_name mq)))))))"

definition offer_to_dicts ::
  "binner \<Rightarrow> string list \<Rightarrow> pyval list option \<Rightarrow> pyval list option
     \<Rightarrow> error + string block \<times> string block" where
  "offer_to_dicts collate timestamps mq_list mc_list =
     (if falsy mq_list \<and> falsy mc_list
      then Inr (dict_fromkeys timestamps (PInt 0), dict_fromkeys timestamps (PInt 0))
      else efoldl (offer_period collate mq_list mc_list) ([], []) (enumerate 0 timestamps))"

section \<open>Concrete inputs\<close>

text \<open>
  A binner that returns the lists it is given and a day-ahead collaborator that is
  never reached, for runs of the real-time path; an assignment of the scheduler's
  variables for ten periods that charges at full power for five periods and then
  sells the stored energy; two solvers that report an infeasible program, one leaving
  zero in every variable, one leaving other values.
\<close>

definition pass_through :: binner where
  "pass_through mq mc = Inr (mq, mc)"

definition no_day_ahead :: "string list \<Rightarrow> error + string offer" where
  "no_day_ahead timestamps = Inl KeyError"

fun charge_then_sell :: "var \<Rightarrow> real" where
  "charge_then_sell (C i) = (if i < 5 then 125 else 0)"
| "charge_then_sell (D i) =
     (if i < 5 then 0 else if i < 9 then 125 else if i = 9 then 115 / 2 else 0)"
| "charge_then_sell (B i) =
     (if i \<le> 5 then 223 / 2 * real i
      else if i \<le> 9 then 1115 / 2 - 125 * (real i - 5) else 0)"

definition infeasible_zero :: solver where
  "infeasible_zero p = (INFEASIBLE, \<lambda>v. 0)"

definition infeasible_stale :: solver where
  "infeasible_stale p = (INFEASIBLE, \<lambda>v. case v of C i \<Rightarrow> 125 | D i \<Rightarrow> 125 | B i \<Rightarrow> 0)"

section \<open>Properties of the ledger walk\<close>

lemma ebind_simps:
  "ebind (Inl e) f = Inl e"
  "ebind (Inr x) f = f x"
  by (simp_all add: ebind_def)

lemma bound_warnings_soc:
  "soc_available (bound_warnings t s) = soc_available s"
  "soc_headroom (bound_warnings t s) = soc_headroom s"
  by (simp_all add: bound_warnings_def Let_def)

lemma order_branch_sum:
  assumes "soc_available s + soc_headroom s = socmax ag - socmin ag"
  shows "soc_available (order_branch ag t s order) + soc_headroom (order_branch ag t s order)
         = socmax ag - socmin ag"
  using assms by (cases order) (simp add: order_branch_def)

lemma process_order_sum:
  assumes "soc_available s + soc_headroom s = socmax ag - socmin ag"
  shows "soc_available (process_order ag t s order) + soc_headroom (process_order ag t s order)
         = socmax ag - socmin ag"
  using order_branch_sum [OF assms] by (simp add: process_order_def bound_warnings_soc)

lemma process_period_sum:
  assumes "soc_available s + soc_headroom s = socmax ag - socmin ag"
  shows "soc_available (process_period ag t s os) + soc_headroom (process_period ag t s os)
         = socmax ag - socmin ag"
  using assms unfolding process_period_def
proof (induction os arbitrary: s)
  case Nil
  then show ?case by simp
next
  case (Cons order os)
  from process_order_sum [OF Cons.prems]
  have "soc_available (process_order ag t s order) + soc_headroom (process_order ag t s order)
        = socmax ag - socmin ag" .
  from Cons.IH [OF this] show ?case by simp
qed

lemma walk_step_sum:
  assumes "soc_available s + soc_headroom s = socmax ag - socmin ag"
  shows "soc_available (walk_step ag ledger s t) + soc_headroom (walk_step ag ledger s t)
         = socmax ag - socmin ag"
proof -
  have "soc_available (seed_blocks ag t s) + soc_headroom (seed_blocks ag t s)
        = socmax ag - socmin ag"
    using assms by (simp add: seed_blocks_def)
  then show ?thesis
    by (simp add: walk_step_def process_period_sum split: option.split)
qed

lemma ledger_walk_sum:
  assumes "soc_available s + soc_headroom s = socmax ag - socmin ag"
  shows "soc_available (ledger_walk ag ledger ts s) + soc_headroom (ledger_walk ag ledger ts s)
         = socmax ag - socmin ag"
  using assms unfolding ledger_walk_def
proof (induction ts arbitrary: s)
  case Nil
  then show ?case by simp
next
  case (Cons t ts)
  from Cons.IH [OF walk_step_sum [OF Cons.prems]] show ?case by simp
qed

lemma rt_init_sum:
  "soc_available (rt_init ag soc :: 't rt_state) + soc_headroom (rt_init ag soc :: 't rt_state)
   = socmax ag - socmin ag"
  by (simp add: rt_init_def)


section \<open>Claims about the ledger walk\<close>

text \<open>
  C9. Throughout the real-time ledger walk the sum of \<^verbatim>\<open>soc_available\<close> and
  \<^verbatim>\<open>soc_headroom\<close> equals \<^verbatim>\<open>socmax - socmin\<close>: the initialisation from the current
  SoC establishes it, processing one ledger entry preserves it whichever branch the
  entry takes, and so it holds after the walk over any ledger and any horizon.
\<close>

theorem walk_keeps_capacity_sum:
  "soc_available (rt_init ag initial_soc :: 't rt_state)
     + soc_headroom (rt_init ag initial_soc :: 't rt_state) = socmax ag - socmin ag
   \<and> (\<forall>(s :: 't rt_state) t order.
          soc_available s + soc_headroom s = socmax ag - socmin ag \<longrightarrow>
          soc_available (process_order ag t s order) + soc_headroom (process_order ag t s order)
            = socmax ag - socmin ag)
   \<and> soc_available (ledger_walk ag ledger timestamps (rt_init ag initial_soc :: 't rt_state))
        + soc_headroom (ledger_walk ag ledger timestamps (rt_init ag initial_soc))
       = socmax ag - socmin ag"
  using rt_init_sum [of ag initial_soc] process_order_sum [of _ ag]
        ledger_walk_sum [OF rt_init_sum, of ag ledger timestamps initial_soc]
  by blast

theorem walk_keeps_capacity_sum_witness:
  "soc_available (rt_init bandit 300 :: string rt_state) + soc_headroom (rt_init bandit 300 :: string rt_state) = 480
   \<and> soc_available (process_order bandit ''202401010000'' (rt_init bandit 300) (-120, 5))
       + soc_headroom (process_order bandit ''202401010000'' (rt_init bandit 300) (-120, 5)) = 480
   \<and> soc_available (ledger_walk bandit
         [(''202401010000'', [(-120, 5), (600, 30), (-6000, 2), (7000, 40)])]
         [''202401010000'', ''202401010005''] (rt_init bandit 300))
     + soc_headroom (ledger_walk bandit
         [(''202401010000'', [(-120, 5), (600, 30), (-6000, 2), (7000, 40)])]
         [''202401010000'', ''202401010005''] (rt_init bandit 300)) = 480"
proof -
  have c: "socmax bandit - socmin bandit = 480" by (simp add: bandit_def)
  note w = walk_keeps_capacity_sum [of bandit 300
      "[(''202401010000'', [(-120, 5), (600, 30), (-6000, 2), (7000, 40)])]"
      "[''202401010000'', ''202401010005'']", unfolded c]
  from w have a: "soc_available (rt_init bandit 300 :: string rt_state)
      + soc_headroom (rt_init bandit 300 :: string rt_state) = 480" by blast
  from w a have b: "soc_available (process_order bandit ''202401010000'' (rt_init bandit 300) (-120, 5))
       + soc_headroom (process_order bandit ''202401010000'' (rt_init bandit 300) (-120, 5)) = 480"
    by blast
  from w a b show ?thesis by blast
qed


lemma in_bounds_charge_effect:
  assumes "- soc_headroom s \<le> mq * 5 / 60" and "mq * 5 / 60 < 0"
  shows "soc_available (process_order ag t s (mq, mc))
           = soc_available s + mq * efficiency ag * 5 / 60
       \<and> soc_headroom (process_order ag t s (mq, mc))
           = soc_headroom s - mq * efficiency ag * 5 / 60
       \<and> best_ch_price (process_order ag t s (mq, mc)) = min (best_ch_price s) mc"
  using assms
  by (simp add: process_order_def order_branch_def bound_warnings_def Let_def)

text \<open>
  C1. An in-bounds charge, evaluated: from 100 MWh available and 380 MWh of headroom,
  the entry \<^verbatim>\<open>(-120, 5)\<close> (10 MWh, within the headroom) takes the first branch, which
  adds the negative \<^verbatim>\<open>mq * efficiency * 5/60\<close> to \<^verbatim>\<open>soc_available\<close> and subtracts it
  from \<^verbatim>\<open>soc_headroom\<close>: availability falls by 8.92 and headroom grows by 8.92. The
  best charge price becomes \<^verbatim>\<open>min(999, 5)\<close>.
\<close>

theorem in_bounds_charge_lowers_available:
  "- soc_headroom (rt_init bandit 228 :: string rt_state) \<le> -120 * 5 / 60
   \<and> soc_available (rt_init bandit 228 :: string rt_state) = 100
   \<and> soc_headroom (rt_init bandit 228 :: string rt_state) = 380
   \<and> soc_available (process_order bandit ''202401010000'' (rt_init bandit 228) (-120, 5)) = 100 - 892 / 100
   \<and> soc_headroom (process_order bandit ''202401010000'' (rt_init bandit 228) (-120, 5)) = 380 + 892 / 100
   \<and> best_ch_price (process_order bandit ''202401010000'' (rt_init bandit 228) (-120, 5)) = 5
   \<and> warnings (process_order bandit ''202401010000'' (rt_init bandit 228) (-120, 5)) = []"
  by (simp add: process_order_def order_branch_def bound_warnings_def rt_init_def bandit_def)

section \<open>Claims about the opportunity-cost engine\<close>

lemma update_values_subset:
  "set (map snd (AList.update k v d)) \<subseteq> insert v (set (map snd d))"
  by (induction d) auto

lemma py_dict_zip_values_aux:
  "set (map snd (foldl (\<lambda>d kv. AList.update (fst kv) (snd kv) d) d kvs))
     \<subseteq> set (map snd d) \<union> set (map snd kvs)"
proof (induction kvs arbitrary: d)
  case Nil
  then show ?case by simp
next
  case (Cons kv kvs)
  have "set (map snd (foldl (\<lambda>d kv. AList.update (fst kv) (snd kv) d)
               (AList.update (fst kv) (snd kv) d) kvs))
        \<subseteq> set (map snd (AList.update (fst kv) (snd kv) d)) \<union> set (map snd kvs)"
    by (rule Cons.IH)
  also have "\<dots> \<subseteq> insert (snd kv) (set (map snd d)) \<union> set (map snd kvs)"
    using update_values_subset [of "fst kv" "snd kv" d] by blast
  finally show ?case by auto
qed

lemma py_dict_zip_values: "set (map snd (py_dict_zip ks vs)) \<subseteq> set vs"
proof -
  have "set (map snd (zip ks vs)) \<subseteq> set vs"
    by (auto dest: set_zip_rightD)
  with py_dict_zip_values_aux [of "[]" "zip ks vs"] show ?thesis
    by (auto simp: py_dict_zip_def)
qed

lemma matching_indices_empty:
  "matching_indices P xs = [] \<longleftrightarrow> (\<forall>x \<in> set xs. \<not> P x)"
proof -
  have "snd ` set (enumerate 0 xs) = set xs"
    by (metis list.set_map map_snd_enumerate)
  then show ?thesis
    by (auto simp: matching_indices_def filter_empty_conv) force
qed

lemma next_default_none:
  "next_default (matching_indices P xs) = None \<longleftrightarrow> (\<forall>x \<in> set xs. \<not> P x)"
  using matching_indices_empty [of P xs]
  by (auto simp: next_default_def split: list.splits)

lemma find_last_none:
  "find (\<lambda>i. P (xs ! i)) (rev [0..<length xs]) = None \<longleftrightarrow> (\<forall>x \<in> set xs. \<not> P x)"
  by (auto simp: find_None_iff in_set_conv_nth) (metis nth_mem)

text \<open>
  C10. The opportunity-cost computation needs a schedule with at least one charging
  period (net flow below zero) and at least one discharging period (net flow above
  zero): for every schedule that lacks either, whatever the periods and the prices,
  it stops at one of the two assertions that precede the loop over the periods, so
  no cost of any period is computed.
\<close>

theorem opportunity_costs_need_a_cycle:
  assumes "(\<forall>v \<in> set (map (\<lambda>cd. snd cd - fst cd) (zip charge_mq discharge_mq)). \<not> v < 0)
         \<or> (\<forall>v \<in> set (map (\<lambda>cd. snd cd - fst cd) (zip charge_mq discharge_mq)). \<not> v > 0)"
  shows "calculate_opportunity_costs ag time prices charge_mq discharge_mq
           = Inl (AssertionError ''t1_ch is not an int'')
       \<or> calculate_opportunity_costs ag time prices charge_mq discharge_mq
           = Inl (AssertionError ''t_last_dis is not an int'')"
proof -
  define combined_list where
    "combined_list = map (\<lambda>cd. snd cd - fst cd) (zip charge_mq discharge_mq)"
  define schedule where "schedule = py_dict_zip time combined_list"
  have sub: "set (map snd schedule) \<subseteq> set combined_list"
    unfolding schedule_def by (rule py_dict_zip_values)
  from assms consider (no_charge) "\<forall>v \<in> set combined_list. \<not> v < 0"
    | (no_discharge) "\<forall>v \<in> set combined_list. \<not> v > 0"
    unfolding combined_list_def by blast
  then show ?thesis
  proof cases
    case no_charge
    with sub have "\<forall>v \<in> set (map snd schedule). \<not> v < 0" by blast
    then have "next_default (matching_indices (\<lambda>value. value < 0) (map snd schedule)) = None"
      by (simp only: next_default_none)
    then show ?thesis
      by (simp add: calculate_opportunity_costs_def Let_def combined_list_def schedule_def)
  next
    case no_discharge
    then have "find (\<lambda>i. combined_list ! i > 0) (rev [0..<length combined_list]) = None"
      using find_last_none [of "\<lambda>v. v > 0" combined_list] by simp
    then show ?thesis
      by (simp add: calculate_opportunity_costs_def Let_def combined_list_def schedule_def
               split: option.split)
  qed
qed

theorem opportunity_costs_need_a_cycle_witness:
  "calculate_opportunity_costs bandit
     [''202401010000'', ''202401010100'', ''202401010200'', ''202401010300'']
     [10, 10, 50, 50] [0, 0, 0, 0] [0, 0, 125, 0]
     = Inl (AssertionError ''t1_ch is not an int'')
   \<and> calculate_opportunity_costs bandit
     [''202401010000'', ''202401010100'', ''202401010200'', ''202401010300'']
     [10, 10, 50, 50] [125, 0, 0, 0] [0, 0, 0, 0]
     = Inl (AssertionError ''t_last_dis is not an int'')"
proof -
  have h1: "(\<forall>v \<in> set (map (\<lambda>cd. snd cd - fst cd) (zip [0, 0, 0, 0] [0, 0, 125, 0 :: real])). \<not> v < 0)
         \<or> (\<forall>v \<in> set (map (\<lambda>cd. snd cd - fst cd) (zip [0, 0, 0, 0] [0, 0, 125, 0 :: real])). \<not> v > 0)"
    by simp
  have h2: "(\<forall>v \<in> set (map (\<lambda>cd. snd cd - fst cd) (zip [125, 0, 0, 0] [0, 0, 0, 0 :: real])). \<not> v < 0)
         \<or> (\<forall>v \<in> set (map (\<lambda>cd. snd cd - fst cd) (zip [125, 0, 0, 0] [0, 0, 0, 0 :: real])). \<not> v > 0)"
    by simp
  have e1: "calculate_opportunity_costs bandit
     [''202401010000'', ''202401010100'', ''202401010200'', ''202401010300'']
     [10, 10, 50, 50] [0, 0, 0, 0] [0, 0, 125, 0]
     \<noteq> Inl (AssertionError ''t_last_dis is not an int'')"
    by code_simp
  have e2: "calculate_opportunity_costs bandit
     [''202401010000'', ''202401010100'', ''202401010200'', ''202401010300'']
     [10, 10, 50, 50] [125, 0, 0, 0] [0, 0, 0, 0]
     \<noteq> Inl (AssertionError ''t1_ch is not an int'')"
    by code_simp
  from opportunity_costs_need_a_cycle [OF h1, of bandit
      "[''202401010000'', ''202401010100'', ''202401010200'', ''202401010300'']"
      "[10, 10, 50, 50]"]
    opportunity_costs_need_a_cycle [OF h2, of bandit
      "[''202401010000'', ''202401010100'', ''202401010200'', ''202401010300'']"
      "[10, 10, 50, 50]"] e1 e2
  show ?thesis by blast
qed


text \<open>
  C3. The isolated cycle: prices \<^verbatim>\<open>[10, 10, 50, 50]\<close>, a full charge (125) in period 0
  and a full discharge (125) in period 2. The engine returns; the discharge cost of
  period 2 is the charge price 10 divided by the efficiency, and the charge cost of
  period 0 is 10, below the discharge price 50.
\<close>

theorem isolated_cycle_costs:
  "calculate_opportunity_costs bandit
     [''202401010000'', ''202401010100'', ''202401010200'', ''202401010300'']
     [10, 10, 50, 50] [125, 0, 0, 0] [0, 0, 125, 0]
   = Inr ([10, 10, - (358 / 25), 0],
          [1001 / 100, 50, 10 / efficiency bandit, 50 / efficiency bandit])
   \<and> (case calculate_opportunity_costs bandit
            [''202401010000'', ''202401010100'', ''202401010200'', ''202401010300'']
            [10, 10, 50, 50] [125, 0, 0, 0] [0, 0, 125, 0] of
         Inl e \<Rightarrow> False
       | Inr costs \<Rightarrow> snd costs ! 2 = 10 / efficiency bandit \<and> fst costs ! 0 \<le> 50)"
proof -
  have run: "calculate_opportunity_costs bandit
     [''202401010000'', ''202401010100'', ''202401010200'', ''202401010300'']
     [10, 10, 50, 50] [125, 0, 0, 0] [0, 0, 125, 0]
   = Inr ([10, 10, - (358 / 25), 0],
          [1001 / 100, 50, 10 / efficiency bandit, 50 / efficiency bandit])"
    by code_simp
  show ?thesis unfolding run by simp
qed

lemma charge_search_raises:
  assumes "int idx < int (length combined_list) - 1"
      and "\<forall>v \<in> set (drop (idx + 1) combined_list). \<not> v > 0"
  shows "calc_oc_charge ag combined_list prices idx = Inl StopIteration"
proof -
  have "py_slice_from combined_list (int idx + 1) = drop (idx + 1) combined_list"
    using assms(1) by (simp add: py_slice_from_def slice_bound_def nat_add_distrib)
  with assms(2) have "matching_indices (\<lambda>value. value > 0)
      (py_slice_from combined_list (int idx + 1)) = []"
    by (simp add: matching_indices_empty)
  with assms(1) show ?thesis
    by (simp add: calc_oc_charge_def next_raise_def ebind_simps)
qed

text \<open>
  C5. A charging period that no discharging period follows, other than the last
  period: with net flows \<^verbatim>\<open>[-125, 0, 111.5, -125, -125]\<close> and prices
  \<^verbatim>\<open>[10, 10, 50, -5, -5]\<close>, period 3 charges and only a charge follows. The search
  for the next discharge is \<^verbatim>\<open>next\<close> without a default, so the computation for
  period 3 raises \<^verbatim>\<open>StopIteration\<close> before the fallback index is reached, and the
  whole engine fails with it. In the last period, 4, the search is skipped and the
  fallback \<^verbatim>\<open>min(5, 4)\<close> is used.
\<close>

theorem charge_without_later_discharge_raises:
  "calc_oc_charge bandit [-125, 0, 223 / 2, -125, -125] [10, 10, 50, -5, -5] 3
     = Inl StopIteration
   \<and> calculate_opportunity_costs bandit
       [''202401010000'', ''202401010100'', ''202401010200'', ''202401010300'',
        ''202401010400'']
       [10, 10, 50, -5, -5] [125, 0, 0, 125, 125] [0, 0, 223 / 2, 0, 0]
     = Inl StopIteration
   \<and> calc_oc_charge bandit [-125, 0, 223 / 2, -125, -125] [10, 10, 50, -5, -5] 4
     = Inr (- (223 / 50), - (223 / 50))"
  by code_simp

section \<open>Claims about the scheduler\<close>

lemma dasoc_nth:
  "t \<le> n \<Longrightarrow> dasoc n ! t = (if t = 0 then Const 0 else Var (B t))"
  by (auto simp: dasoc_def nth_list_update simp del: upt_Suc)

lemma soc_zero: "dasoc_value \<sigma> n 0 = 0"
  by (simp add: dasoc_value_def dasoc_nth)

lemma soc_var: "0 < t \<Longrightarrow> t \<le> n \<Longrightarrow> dasoc_value \<sigma> n t = \<sigma> (B t)"
  by (simp add: dasoc_value_def dasoc_nth)

lemma eval_foldl_Add:
  "eval \<sigma> (foldl Add e xs) = eval \<sigma> e + sum_list (map (eval \<sigma>) xs)"
  by (induction xs arbitrary: e) simp_all

lemma objective_value:
  "eval \<sigma> (objective (scheduler_lp ag prices))
     = (\<Sum>t<length prices. prices ! t * (\<sigma> (C t) - \<sigma> (D t)))"
proof -
  have "eval \<sigma> (objective (scheduler_lp ag prices))
        = sum_list (map (\<lambda>t. prices ! t * (\<sigma> (C t) - \<sigma> (D t))) [0..<length prices])"
    by (simp add: scheduler_lp_def Let_def eval_foldl_Add comp_def)
  also have "\<dots> = (\<Sum>t<length prices. prices ! t * (\<sigma> (C t) - \<sigma> (D t)))"
    by (simp add: interv_sum_list_conv_sum_set_nat atLeast0LessThan)
  finally show ?thesis .
qed

lemma list_all_map_upt:
  "list_all P (map f [0..<n]) \<longleftrightarrow> (\<forall>i<n. P (f i))"
  by (auto simp: list_all_iff)

lemma bounds_feasible:
  "list_all (\<lambda>v. lb v \<le> \<sigma> (var_name v) \<and> \<sigma> (var_name v) \<le> ub v)
     (numvars (scheduler_lp ag prices))
   \<longleftrightarrow> (\<forall>t<length prices. 0 \<le> \<sigma> (C t) \<and> \<sigma> (C t) \<le> chmax ag
                              \<and> 0 \<le> \<sigma> (D t) \<and> \<sigma> (D t) \<le> dcmax ag)
     \<and> (\<forall>t\<le>length prices. 0 \<le> \<sigma> (B t) \<and> \<sigma> (B t) \<le> socmax ag)"
proof -
  have "(\<forall>i<length prices + 1. 0 \<le> \<sigma> (B i) \<and> \<sigma> (B i) \<le> socmax ag)
        \<longleftrightarrow> (\<forall>t\<le>length prices. 0 \<le> \<sigma> (B t) \<and> \<sigma> (B t) \<le> socmax ag)"
    by (simp add: less_Suc_eq_le)
  then show ?thesis
    by (simp add: scheduler_lp_def Let_def list_all_map_upt del: upt_Suc) blast
qed

lemma constraints_feasible:
  "list_all (\<lambda>c. eval \<sigma> (fst c) = eval \<sigma> (snd c)) (constraints (scheduler_lp ag prices))
   \<longleftrightarrow> (\<forall>t<length prices.
          dasoc_value \<sigma> (length prices) (t + 1)
            = dasoc_value \<sigma> (length prices) t + efficiency ag * \<sigma> (C t) - \<sigma> (D t))"
  by (simp add: scheduler_lp_def Let_def list_all_map_upt dasoc_value_def) (metis (no_types))

lemma abs_sum_positive:
  "sum_list (map abs (xs :: real list)) > 0 \<longleftrightarrow> (\<exists>x \<in> set xs. x \<noteq> 0)"
proof (induction xs)
  case Nil
  then show ?case by simp
next
  case (Cons x xs)
  have "0 \<le> sum_list (map abs xs)" by (rule sum_list_nonneg) auto
  with Cons show ?case by (cases "x = 0") auto
qed

lemma abs_sum_positive_upt:
  "sum_list (map abs (map f [0..<n])) > 0 \<longleftrightarrow> (\<exists>t<n. f t \<noteq> (0::real))"
  unfolding abs_sum_positive by auto

text \<open>
  C2, as the code has it. For every price forecast, an assignment is feasible for the
  scheduler's program exactly if every \<^verbatim>\<open>charge[t]\<close> lies in \<^verbatim>\<open>[0, chmax]\<close>, every
  \<^verbatim>\<open>discharge[t]\<close> in \<^verbatim>\<open>[0, dcmax]\<close>, every state-of-charge variable in
  \<^verbatim>\<open>[0, socmax]\<close> (the upper bound is \<^verbatim>\<open>socmax\<close>, not \<^verbatim>\<open>socmax - socmin\<close>), and
  \<^verbatim>\<open>soc[t+1] = soc[t] + efficiency * charge[t] - discharge[t]\<close> with \<^verbatim>\<open>soc[0] = 0\<close>; the
  objective it minimises is the sum of \<^verbatim>\<open>price[t] * (charge[t] - discharge[t])\<close>.
\<close>

theorem scheduler_lp_meaning:
  "(lp_feasible (scheduler_lp ag prices) \<sigma> \<longleftrightarrow>
      (\<forall>t<length prices.
          0 \<le> \<sigma> (C t) \<and> \<sigma> (C t) \<le> chmax ag \<and> 0 \<le> \<sigma> (D t) \<and> \<sigma> (D t) \<le> dcmax ag
          \<and> dasoc_value \<sigma> (length prices) (t + 1)
              = dasoc_value \<sigma> (length prices) t + efficiency ag * \<sigma> (C t) - \<sigma> (D t))
      \<and> (\<forall>t\<le>length prices. 0 \<le> \<sigma> (B t) \<and> \<sigma> (B t) \<le> socmax ag))
   \<and> dasoc_value \<sigma> (length prices) 0 = 0
   \<and> (\<forall>t. 0 < t \<and> t \<le> length prices \<longrightarrow> dasoc_value \<sigma> (length prices) t = \<sigma> (B t))
   \<and> eval \<sigma> (objective (scheduler_lp ag prices))
       = (\<Sum>t<length prices. prices ! t * (\<sigma> (C t) - \<sigma> (D t)))"
proof -
  have "lp_feasible (scheduler_lp ag prices) \<sigma> \<longleftrightarrow>
      (\<forall>t<length prices.
          0 \<le> \<sigma> (C t) \<and> \<sigma> (C t) \<le> chmax ag \<and> 0 \<le> \<sigma> (D t) \<and> \<sigma> (D t) \<le> dcmax ag
          \<and> dasoc_value \<sigma> (length prices) (t + 1)
              = dasoc_value \<sigma> (length prices) t + efficiency ag * \<sigma> (C t) - \<sigma> (D t))
      \<and> (\<forall>t\<le>length prices. 0 \<le> \<sigma> (B t) \<and> \<sigma> (B t) \<le> socmax ag)"
    unfolding lp_feasible_def bounds_feasible constraints_feasible by blast
  then show ?thesis
    using soc_zero soc_var objective_value by blast
qed

theorem scheduler_lp_meaning_witness:
  "lp_feasible (scheduler_lp bandit [10, 10, 10, 10, 10, 50, 50, 50, 50, 50]) charge_then_sell
   \<and> 0 \<le> charge_then_sell (C 3) \<and> charge_then_sell (C 3) \<le> chmax bandit
   \<and> 0 \<le> charge_then_sell (D 3) \<and> charge_then_sell (D 3) \<le> dcmax bandit
   \<and> dasoc_value charge_then_sell 10 (3 + 1)
       = dasoc_value charge_then_sell 10 3 + efficiency bandit * charge_then_sell (C 3)
         - charge_then_sell (D 3)
   \<and> 0 \<le> charge_then_sell (B 5) \<and> charge_then_sell (B 5) \<le> socmax bandit
   \<and> dasoc_value charge_then_sell 10 5 = charge_then_sell (B 5)"
proof -
  have feas: "lp_feasible (scheduler_lp bandit [10, 10, 10, 10, 10, 50, 50, 50, 50, 50])
                charge_then_sell"
    by code_simp
  have len: "length [10, 10, 10, 10, 10, 50, 50, 50, 50, 50 :: real] = 10" by simp
  note m = scheduler_lp_meaning [of bandit "[10, 10, 10, 10, 10, 50, 50, 50, 50, 50]"
      charge_then_sell, unfolded len]
  from m feas have per: "\<forall>t<10.
      0 \<le> charge_then_sell (C t) \<and> charge_then_sell (C t) \<le> chmax bandit
      \<and> 0 \<le> charge_then_sell (D t) \<and> charge_then_sell (D t) \<le> dcmax bandit
      \<and> dasoc_value charge_then_sell 10 (t + 1)
          = dasoc_value charge_then_sell 10 t + efficiency bandit * charge_then_sell (C t)
            - charge_then_sell (D t)"
    by blast
  from m feas have bnd: "\<forall>t\<le>10. 0 \<le> charge_then_sell (B t) \<and> charge_then_sell (B t) \<le> socmax bandit"
    by blast
  from m have var: "\<forall>t. 0 < t \<and> t \<le> 10 \<longrightarrow> dasoc_value charge_then_sell 10 t = charge_then_sell (B t)"
    by blast
  have "(3::nat) < 10" "(5::nat) \<le> 10" "(0::nat) < 5" by simp_all
  with per bnd var feas show ?thesis by blast
qed

text \<open>
  C2, as stated, fails: for the forecast \<^verbatim>\<open>[10, 10, 10, 10, 10, 50, 50, 50, 50, 50]\<close>
  the program admits the schedule that charges at full power for five periods and
  sells afterwards, whose state of charge reaches 557.5, above
  \<^verbatim>\<open>socmax - socmin = 480\<close>.
\<close>

theorem soc_may_exceed_usable_capacity:
  "lp_feasible (scheduler_lp bandit [10, 10, 10, 10, 10, 50, 50, 50, 50, 50]) charge_then_sell
   \<and> dasoc_value charge_then_sell 10 5 = 1115 / 2
   \<and> \<not> dasoc_value charge_then_sell 10 5 \<le> socmax bandit - socmin bandit"
  by code_simp


text \<open>
  C7, as the code has it. Without a solver the scheduler, and with it the offer-curve
  computation, stops with the import error. With a solver, the status of the solve
  plays no part: two solvers that leave the same values give the same outcome, which
  is an assertion error when the charge values are all zero, an assertion error when
  the discharge values are all zero, and the values as the schedule otherwise.
\<close>

theorem scheduler_ignores_status:
  "scheduler ag None prices = Inl (ImportError ''Scheduler unable to load solver.'')
   \<and> calculate_offer_curve ag None time prices
       = Inl (ImportError ''Scheduler unable to load solver.'')
   \<and> (snd (solve (scheduler_lp ag prices)) = snd (solve' (scheduler_lp ag prices)) \<longrightarrow>
        scheduler ag (Some solve) prices = scheduler ag (Some solve') prices)
   \<and> ((\<forall>t<length prices. snd (solve (scheduler_lp ag prices)) (C t) = 0) \<longrightarrow>
        scheduler ag (Some solve) prices
          = Inl (AssertionError ''scheduler: charge list has no values''))
   \<and> ((\<exists>t<length prices. snd (solve (scheduler_lp ag prices)) (C t) \<noteq> 0)
        \<and> (\<forall>t<length prices. snd (solve (scheduler_lp ag prices)) (D t) = 0) \<longrightarrow>
        scheduler ag (Some solve) prices
          = Inl (AssertionError ''scheduler: discharge list has no values''))
   \<and> ((\<exists>t<length prices. snd (solve (scheduler_lp ag prices)) (C t) \<noteq> 0)
        \<and> (\<exists>t<length prices. snd (solve (scheduler_lp ag prices)) (D t) \<noteq> 0) \<longrightarrow>
        scheduler ag (Some solve) prices
          = Inr (map (\<lambda>t. snd (solve (scheduler_lp ag prices)) (C t)) [0..<length prices],
                 map (\<lambda>t. snd (solve (scheduler_lp ag prices)) (D t)) [0..<length prices]))"
proof -
  define val where "val = snd (solve (scheduler_lp ag prices))"
  have run: "scheduler ag (Some solve) prices =
      (if \<not> (\<exists>t<length prices. val (C t) \<noteq> 0)
       then Inl (AssertionError ''scheduler: charge list has no values'')
       else if \<not> (\<exists>t<length prices. val (D t) \<noteq> 0)
       then Inl (AssertionError ''scheduler: discharge list has no values'')
       else Inr (map (\<lambda>t. val (C t)) [0..<length prices],
                 map (\<lambda>t. val (D t)) [0..<length prices]))"
    unfolding scheduler_def val_def Let_def option.case abs_sum_positive_upt ..
  have unavailable: "scheduler ag None prices
      = Inl (ImportError ''Scheduler unable to load solver.'')"
    by (simp add: scheduler_def)
  then have curve: "calculate_offer_curve ag None time prices
      = Inl (ImportError ''Scheduler unable to load solver.'')"
    by (simp add: calculate_offer_curve_def ebind_def)
  have same: "snd (solve (scheduler_lp ag prices)) = snd (solve' (scheduler_lp ag prices))
      \<longrightarrow> scheduler ag (Some solve) prices = scheduler ag (Some solve') prices"
    by (simp add: scheduler_def)
  from run unavailable curve same show ?thesis
    unfolding val_def by auto
qed

theorem scheduler_ignores_status_witness:
  "scheduler bandit (Some infeasible_zero) [10, 50]
     = Inl (AssertionError ''scheduler: charge list has no values'')
   \<and> scheduler bandit (Some infeasible_stale) [10, 50]
     = Inr (map (\<lambda>t. snd (infeasible_stale (scheduler_lp bandit [10, 50])) (C t)) [0..<2],
            map (\<lambda>t. snd (infeasible_stale (scheduler_lp bandit [10, 50])) (D t)) [0..<2])"
proof -
  have len: "length [10, 50 :: real] = 2" by simp
  have z: "\<forall>t<2. snd (infeasible_zero (scheduler_lp bandit [10, 50])) (C t) = 0"
    by (simp add: infeasible_zero_def)
  have c: "\<exists>t<2. snd (infeasible_stale (scheduler_lp bandit [10, 50])) (C t) \<noteq> 0"
    by (rule exI [of _ 0]) (simp add: infeasible_stale_def)
  have d: "\<exists>t<2. snd (infeasible_stale (scheduler_lp bandit [10, 50])) (D t) \<noteq> 0"
    by (rule exI [of _ 0]) (simp add: infeasible_stale_def)
  from scheduler_ignores_status [of bandit "[10, 50]" _ infeasible_zero, unfolded len] z
    scheduler_ignores_status [of bandit "[10, 50]" _ infeasible_stale, unfolded len] c d
  show ?thesis by blast
qed


text \<open>
  C7, as stated, fails: a solve that reports an infeasible program and leaves nonzero
  values in the variables yields a schedule; one that leaves zeros stops at the
  assertion on the charge list, the diagnostic of an all-zero schedule.
\<close>

theorem infeasible_solve_not_reported:
  "fst (infeasible_stale (scheduler_lp bandit [10, 50])) = INFEASIBLE
   \<and> scheduler bandit (Some infeasible_stale) [10, 50] = Inr ([125, 125], [125, 125])
   \<and> fst (infeasible_zero (scheduler_lp bandit [10, 50])) = INFEASIBLE
   \<and> scheduler bandit (Some infeasible_zero) [10, 50]
       = Inl (AssertionError ''scheduler: charge list has no values'')"
  by code_simp

section \<open>Claims about the real-time offer\<close>

lemma efoldl_fixed:
  assumes "\<And>x. x \<in> set xs \<Longrightarrow> f s x = Inr s"
  shows "efoldl f s xs = Inr s"
  using assms
proof (induction xs)
  case Nil
  show ?case by simp
next
  case (Cons x xs)
  have "f s x = Inr s" by (rule Cons.prems) simp
  moreover have "efoldl f s xs = Inr s" by (rule Cons.IH) (rule Cons.prems, simp)
  ultimately show ?case by simp
qed

lemma dict_append_update:
  "dict_append t x (AList.update t [] d) = AList.update t [x] d"
  by (induction d) (auto simp: dict_append_def)

lemma map_of_fromkeys_aux:
  "map_of (foldl (\<lambda>d k. AList.update k v d) d ks) t
     = (if t \<in> set ks then Some v else map_of d t)"
  by (induction ks arbitrary: d) (auto simp: update_conv')

lemma map_of_fromkeys:
  "map_of (dict_fromkeys ks v) t = (if t \<in> set ks then Some v else None)"
  by (simp add: dict_fromkeys_def map_of_fromkeys_aux)

lemma order_branch_blocks:
  "block_ch_mq (order_branch ag t s order) = block_ch_mq s"
  "block_ch_mc (order_branch ag t s order) = block_ch_mc s"
  "block_dc_mq (order_branch ag t s order) = block_dc_mq s"
  "block_dc_mc (order_branch ag t s order) = block_dc_mc s"
  by (cases order; simp add: order_branch_def)+

lemma process_order_blocks:
  "block_ch_mq (process_order ag t s order) = block_ch_mq s"
  "block_ch_mc (process_order ag t s order) = block_ch_mc s"
  "block_dc_mq (process_order ag t s order) = block_dc_mq s"
  "block_dc_mc (process_order ag t s order) = block_dc_mc s"
  by (simp_all add: process_order_def bound_warnings_def Let_def order_branch_blocks)

lemma process_period_blocks:
  "block_ch_mq (process_period ag t s os) = block_ch_mq s"
  "block_ch_mc (process_period ag t s os) = block_ch_mc s"
  "block_dc_mq (process_period ag t s os) = block_dc_mq s"
  "block_dc_mc (process_period ag t s os) = block_dc_mc s"
  unfolding process_period_def
  by (induction os arbitrary: s; simp add: process_order_blocks)+

lemma walk_step_blocks:
  "block_ch_mq (walk_step ag ledger s t) = AList.update t [chmax ag] (block_ch_mq s)"
  "block_ch_mc (walk_step ag ledger s t) = AList.update t [0] (block_ch_mc s)"
  "block_dc_mq (walk_step ag ledger s t) = AList.update t [dcmax ag] (block_dc_mq s)"
  "block_dc_mc (walk_step ag ledger s t) = AList.update t [0] (block_dc_mc s)"
  by (simp_all add: walk_step_def process_period_blocks seed_blocks_def dict_append_update
        split: option.split)

lemma ledger_walk_blocks_aux:
  "block_ch_mq (foldl (walk_step ag ledger) s ts)
     = foldl (\<lambda>d k. AList.update k [chmax ag] d) (block_ch_mq s) ts"
  "block_ch_mc (foldl (walk_step ag ledger) s ts)
     = foldl (\<lambda>d k. AList.update k [0] d) (block_ch_mc s) ts"
  "block_dc_mq (foldl (walk_step ag ledger) s ts)
     = foldl (\<lambda>d k. AList.update k [dcmax ag] d) (block_dc_mq s) ts"
  "block_dc_mc (foldl (walk_step ag ledger) s ts)
     = foldl (\<lambda>d k. AList.update k [0] d) (block_dc_mc s) ts"
  by (induction ts arbitrary: s; simp add: walk_step_blocks)+

lemma ledger_walk_blocks:
  "block_ch_mq (ledger_walk ag ledger ts (rt_init ag soc0)) = dict_fromkeys ts [chmax ag]"
  "block_ch_mc (ledger_walk ag ledger ts (rt_init ag soc0)) = dict_fromkeys ts [0]"
  "block_dc_mq (ledger_walk ag ledger ts (rt_init ag soc0)) = dict_fromkeys ts [dcmax ag]"
  "block_dc_mc (ledger_walk ag ledger ts (rt_init ag soc0)) = dict_fromkeys ts [0]"
  by (simp_all add: ledger_walk_def ledger_walk_blocks_aux dict_fromkeys_def rt_init_def)

lemma widen_prices_fields:
  "block_ch_mq (widen_prices s order) = block_ch_mq s"
  "block_ch_mc (widen_prices s order) = block_ch_mc s"
  "block_dc_mq (widen_prices s order) = block_dc_mq s"
  "block_dc_mc (widen_prices s order) = block_dc_mc s"
  "soc_available (widen_prices s order) = soc_available s"
  "soc_headroom (widen_prices s order) = soc_headroom s"
  by (cases order; simp add: widen_prices_def)+

lemma foldl_widen_fields:
  "block_ch_mq (foldl widen_prices s os) = block_ch_mq s"
  "block_ch_mc (foldl widen_prices s os) = block_ch_mc s"
  "block_dc_mq (foldl widen_prices s os) = block_dc_mq s"
  "block_dc_mc (foldl widen_prices s os) = block_dc_mc s"
  "soc_available (foldl widen_prices s os) = soc_available s"
  "soc_headroom (foldl widen_prices s os) = soc_headroom s"
  by (induction os arbitrary: s; simp add: widen_prices_fields)+

lemma post_market_prices_fields:
  "block_ch_mq (post_market_prices post s) = block_ch_mq s"
  "block_ch_mc (post_market_prices post s) = block_ch_mc s"
  "block_dc_mq (post_market_prices post s) = block_dc_mq s"
  "block_dc_mc (post_market_prices post s) = block_dc_mc s"
  "soc_available (post_market_prices post s) = soc_available s"
  "soc_headroom (post_market_prices post s) = soc_headroom s"
  unfolding post_market_prices_def
  by (induction post arbitrary: s; simp add: foldl_widen_fields)+

lemma residual_step_seeded:
  assumes "map_of (block_dc_mq s) t = Some [dcmax ag]"
      and "map_of (block_ch_mq s) t = Some [chmax ag]"
  shows "residual_step ag s t = Inr s"
  using assms by (simp add: residual_step_def ebind_def dict_get_def Let_def)

lemma residual_walk_seeded:
  assumes "block_dc_mq s = dict_fromkeys ts [dcmax ag]"
      and "block_ch_mq s = dict_fromkeys ts [chmax ag]"
  shows "efoldl (residual_step ag) s ts = Inr s"
proof (rule efoldl_fixed)
  fix t assume "t \<in> set ts"
  then show "residual_step ag s t = Inr s"
    using assms by (intro residual_step_seeded) (simp_all add: map_of_fromkeys)
qed

lemma soc_raw_cong:
  "soc_available s = soc_available s' \<Longrightarrow> soc_headroom s = soc_headroom s'
     \<Longrightarrow> soc_raw ag s os = soc_raw ag s' os"
  by (simp add: soc_raw_def split: prod.split)

lemma num_block_fromkeys_aux:
  "num_block (foldl (\<lambda>d k. AList.update k xs d) d ks)
     = foldl (\<lambda>d k. AList.update k (PList (map PFloat xs)) d) (num_block d) ks"
proof (induction ks arbitrary: d)
  case Nil
  then show ?case by simp
next
  case (Cons k ks)
  have "num_block (AList.update k xs d) = AList.update k (PList (map PFloat xs)) (num_block d)"
    by (induction d) (auto simp: num_block_def)
  with Cons show ?case by simp
qed

lemma num_block_fromkeys:
  "num_block (dict_fromkeys ks xs) = dict_fromkeys ks (PList (map PFloat xs))"
  by (simp add: dict_fromkeys_def num_block_fromkeys_aux) (simp add: num_block_def)

lemma real_time_offer_unfold:
  "real_time_offer ag collate ts ledger soc0 =
     ebind (py_max ts) (\<lambda>t_end.
       case soc_raw ag (ledger_walk ag ledger ts (rt_init ag soc0))
                 (post_market_sorted (post_market_ledger ledger t_end)) of
         (soc_mq, soc_mc) \<Rightarrow>
           ebind (collate (map PFloat soc_mq) (map PFloat soc_mc)) (\<lambda>soc_offer.
             Inr (dict_update_all
                   (dict_update_all
                     [(''block_ch_mc'', dict_fromkeys ts (PList [PFloat 0])),
                      (''block_ch_mq'', dict_fromkeys ts (PList [PFloat (chmax ag)])),
                      (''block_dc_mc'', dict_fromkeys ts (PList [PFloat 0])),
                      (''block_dc_mq'', dict_fromkeys ts (PList [PFloat (dcmax ag)])),
                      (''block_soc_mc'', [(t_end, PList (snd soc_offer))]),
                      (''block_soc_mq'', [(t_end, PList (fst soc_offer))])]
                     (default_reserve_offer ts))
                   (default_dispatch_capacity ag ts))))"
proof (cases "py_max ts")
  case (Inl e)
  then show ?thesis by (simp add: real_time_offer_def ebind_simps)
next
  case (Inr t_end)
  define s1 where "s1 = ledger_walk ag ledger ts (rt_init ag soc0)"
  define s2 where "s2 = post_market_prices (post_market_ledger ledger t_end) s1"
  have blocks: "block_ch_mq s2 = dict_fromkeys ts [chmax ag]"
      "block_ch_mc s2 = dict_fromkeys ts [0]"
      "block_dc_mq s2 = dict_fromkeys ts [dcmax ag]"
      "block_dc_mc s2 = dict_fromkeys ts [0]"
    by (simp_all add: s2_def s1_def post_market_prices_fields ledger_walk_blocks)
  have res: "efoldl (residual_step ag) s2 ts = Inr s2"
    using blocks by (intro residual_walk_seeded)
  have raw: "soc_raw ag s2 os = soc_raw ag s1 os" for os
    by (rule soc_raw_cong) (simp_all add: s2_def post_market_prices_fields)
  obtain q c where qc:
      "soc_raw ag s1 (post_market_sorted (post_market_ledger ledger t_end)) = (q, c)"
    by fastforce
  have qc2: "soc_raw ag s2 (post_market_sorted (post_market_ledger ledger t_end)) = (q, c)"
    using raw qc by simp
  show ?thesis
    unfolding real_time_offer_def Inr
    by (simp add: ebind_simps Let_def s1_def [symmetric] s2_def [symmetric] res qc qc2
          blocks num_block_fromkeys)
qed


lemma dict_update_all_other:
  "k \<notin> fst ` set e \<Longrightarrow> map_of (dict_update_all d e) k = map_of d k"
  unfolding dict_update_all_def
  by (induction e arbitrary: d) (auto simp: update_conv')

lemma default_keys:
  "fst ` set (default_reserve_offer ts) = {''cost_rgu'', ''cost_rgd'', ''cost_spr'', ''cost_nsp''}"
  "fst ` set (default_dispatch_capacity ag ts) = {''chmax'', ''dcmax''}"
  by (auto simp: default_reserve_offer_def default_dispatch_capacity_def)

lemma rt_offer_lookup:
  assumes "k \<in> {''block_ch_mc'', ''block_ch_mq'', ''block_dc_mc'', ''block_dc_mq'',
               ''block_soc_mc'', ''block_soc_mq''}"
  shows "map_of (dict_update_all (dict_update_all d (default_reserve_offer ts))
                   (default_dispatch_capacity ag ts)) k = map_of d k"
proof -
  have "k \<notin> fst ` set (default_dispatch_capacity ag ts)"
       "k \<notin> fst ` set (default_reserve_offer ts)"
    using assms unfolding default_keys by auto
  then show ?thesis by (simp add: dict_update_all_other)
qed

text \<open>
  C6. In a run of the real-time offer that returns, let the greedy walk over the
  post-horizon orders, sorted by price from the highest, start from the
  \<^verbatim>\<open>soc_available\<close> the ledger walk left and end with \<^verbatim>\<open>remaining_capacity\<close> and the
  lists \<^verbatim>\<open>soc_mq\<close>, \<^verbatim>\<open>soc_mc\<close>. The binner is then called on these lists followed
  by one entry \<^verbatim>\<open>(remaining_capacity, price_ceiling)\<close> if \<^verbatim>\<open>remaining_capacity\<close> exceeds
  \<^verbatim>\<open>1e-2\<close>, and always by the final entry \<^verbatim>\<open>(soc_headroom, 0)\<close>; what it returns is
  the SoC curve of the last period.
\<close>

theorem soc_valuation_tail:
  assumes run: "real_time_offer ag collate timestamps ledger initial_soc = Inr offer"
      and t_end: "py_max timestamps = Inr t_end"
      and walk: "soc_walk (post_market_sorted (post_market_ledger ledger t_end))
                   (soc_available (ledger_walk ag ledger timestamps (rt_init ag initial_soc)))
                   [] [] = (remaining_capacity, soc_mq, soc_mc)"
  shows "\<exists>soc_offer.
           collate
             (map PFloat (soc_mq @ (if remaining_capacity > 1 / 100 then [remaining_capacity] else [])
                @ [soc_headroom (ledger_walk ag ledger timestamps (rt_init ag initial_soc))]))
             (map PFloat (soc_mc @ (if remaining_capacity > 1 / 100 then [price_ceiling ag] else [])
                @ [0]))
             = Inr soc_offer
           \<and> dict_get offer ''block_soc_mq'' = Inr [(t_end, PList (fst soc_offer))]
           \<and> dict_get offer ''block_soc_mc'' = Inr [(t_end, PList (snd soc_offer))]"
proof -
  define s1 where "s1 = ledger_walk ag ledger timestamps (rt_init ag initial_soc)"
  define qs where "qs = soc_mq @ (if remaining_capacity > 1 / 100 then [remaining_capacity] else [])
                @ [soc_headroom s1]"
  define cs where "cs = soc_mc @ (if remaining_capacity > 1 / 100 then [price_ceiling ag] else [])
                @ [0]"
  have raw: "soc_raw ag s1 (post_market_sorted (post_market_ledger ledger t_end)) = (qs, cs)"
    using walk by (simp add: soc_raw_def s1_def qs_def cs_def)
  show ?thesis
  proof (cases "collate (map PFloat qs) (map PFloat cs)")
    case (Inl e)
    with run t_end raw show ?thesis
      by (simp add: real_time_offer_unfold ebind_simps s1_def [symmetric])
  next
    case (Inr soc_offer)
    with run t_end raw have offer: "offer =
        dict_update_all
          (dict_update_all
            [(''block_ch_mc'', dict_fromkeys timestamps (PList [PFloat 0])),
             (''block_ch_mq'', dict_fromkeys timestamps (PList [PFloat (chmax ag)])),
             (''block_dc_mc'', dict_fromkeys timestamps (PList [PFloat 0])),
             (''block_dc_mq'', dict_fromkeys timestamps (PList [PFloat (dcmax ag)])),
             (''block_soc_mc'', [(t_end, PList (snd soc_offer))]),
             (''block_soc_mq'', [(t_end, PList (fst soc_offer))])]
            (default_reserve_offer timestamps))
          (default_dispatch_capacity ag timestamps)"
      by (simp add: real_time_offer_unfold ebind_simps s1_def [symmetric])
    have "dict_get offer ''block_soc_mq'' = Inr [(t_end, PList (fst soc_offer))]"
         "dict_get offer ''block_soc_mc'' = Inr [(t_end, PList (snd soc_offer))]"
      unfolding offer dict_get_def by (simp_all add: rt_offer_lookup)
    with Inr show ?thesis
      unfolding qs_def cs_def s1_def by blast
  qed
qed


theorem soc_valuation_tail_witness:
  "offer_curve (real_time_offer bandit pass_through [''202401010000'', ''202401010005'']
        [(''202401010000'', [(-120, 5), (600, 30)]),
         (''202401010010'', [(100, 7), (50, 9), (-20, 3)])] 300)
      ''block_soc_mq'' ''202401010005''
     = Inr (PList [PFloat 50, PFloat 100, PFloat (5029 / 50), PFloat (9173 / 25)])
   \<and> offer_curve (real_time_offer bandit pass_through [''202401010000'', ''202401010005'']
        [(''202401010000'', [(-120, 5), (600, 30)]),
         (''202401010010'', [(100, 7), (50, 9), (-20, 3)])] 300)
      ''block_soc_mc'' ''202401010005''
     = Inr (PList [PFloat 9, PFloat 7, PFloat 999, PFloat 0])"
proof -
  define ts where "ts = [''202401010000'', ''202401010005'']"
  define ledger :: "string ledger" where
    "ledger = [(''202401010000'', [(-120, 5), (600, 30)]),
               (''202401010010'', [(100, 7), (50, 9), (-20, 3)])]"
  have "\<not> isl (real_time_offer bandit pass_through ts ledger 300)"
    unfolding ts_def ledger_def by code_simp
  then obtain offer where run: "real_time_offer bandit pass_through ts ledger 300 = Inr offer"
    by (cases "real_time_offer bandit pass_through ts ledger 300") auto
  have t_end: "py_max ts = Inr ''202401010005''"
    unfolding ts_def by code_simp
  have walk: "soc_walk (post_market_sorted (post_market_ledger ledger ''202401010005''))
                (soc_available (ledger_walk bandit ledger ts (rt_init bandit 300))) [] []
              = (5029 / 50, [50, 100], [9, 7])"
    unfolding ts_def ledger_def by code_simp
  have headroom: "soc_headroom (ledger_walk bandit ledger ts (rt_init bandit 300)) = 9173 / 25"
    unfolding ts_def ledger_def by code_simp
  have ceiling: "price_ceiling bandit = 999" by (simp add: bandit_def)
  from soc_valuation_tail [OF run t_end walk]
  have "dict_get offer ''block_soc_mq''
          = Inr [(''202401010005'',
                  PList [PFloat 50, PFloat 100, PFloat (5029 / 50), PFloat (9173 / 25)])]
        \<and> dict_get offer ''block_soc_mc''
          = Inr [(''202401010005'', PList [PFloat 9, PFloat 7, PFloat 999, PFloat 0])]"
    by (auto simp: pass_through_def headroom ceiling)
  then show ?thesis
    unfolding ts_def [symmetric] ledger_def [symmetric] run
    by (simp add: offer_curve_def ebind_simps dict_get_def)
qed

lemma walk_step_soc_empty:
  assumes "\<forall>entry \<in> set ledger. snd entry = []"
  shows "soc_available (walk_step ag ledger s t) = soc_available s
       \<and> soc_headroom (walk_step ag ledger s t) = soc_headroom s"
proof (cases "map_of ledger t")
  case None
  then show ?thesis by (simp add: walk_step_def seed_blocks_def)
next
  case (Some en_ledger)
  then have "(t, en_ledger) \<in> set ledger" by (rule map_of_SomeD)
  with assms have "en_ledger = []" by auto
  with Some show ?thesis by (simp add: walk_step_def seed_blocks_def process_period_def)
qed

lemma ledger_walk_soc_empty:
  assumes "\<forall>entry \<in> set ledger. snd entry = []"
  shows "soc_available (ledger_walk ag ledger ts s) = soc_available s
       \<and> soc_headroom (ledger_walk ag ledger ts s) = soc_headroom s"
  unfolding ledger_walk_def
  by (induction ts arbitrary: s) (simp_all add: walk_step_soc_empty [OF assms])

lemma post_market_sorted_empty:
  assumes "\<forall>entry \<in> set ledger. snd entry = []"
  shows "post_market_sorted (post_market_ledger ledger t_end) = []"
proof -
  have "concat (map snd (filter (\<lambda>entry. fst entry > t_end) ledger)) = []"
    using assms by (induction ledger) auto
  then show ?thesis
    unfolding post_market_sorted_def post_market_ledger_def by (simp only: sort_key_simps)
qed

lemma py_max_nonempty: "ts \<noteq> [] \<Longrightarrow> \<exists>t_end. py_max ts = Inr t_end"
  by (cases ts) (simp_all add: py_max_def)

lemma shift_seed: "shift_offer 1 (PList [PFloat 0]) = Inr (PList [PFloat 1])"
  by (simp add: shift_offer_def is_int_def py_add_def ebind_simps)

lemma shift_block_constant:
  assumes "\<forall>item \<in> set old_block. snd item = v0" and "shift_offer adjustment v0 = Inr v1"
  shows "efoldl (\<lambda>new_block item.
                 ebind (shift_offer adjustment (snd item))
                   (\<lambda>v. Inr (AList.update (fst item) v new_block)))
               acc old_block
         = Inr (foldl (\<lambda>d k. AList.update k v1 d) acc (map fst old_block))"
  using assms(1)
proof (induction old_block arbitrary: acc)
  case Nil
  show ?case by simp
next
  case (Cons item old_block)
  have "snd item = v0" using Cons.prems by simp
  moreover have "\<forall>item \<in> set old_block. snd item = v0" using Cons.prems by simp
  ultimately show ?case
    using Cons.IH assms(2) by (simp add: ebind_simps)
qed

lemma fromkeys_keys_aux:
  "fst ` set (foldl (\<lambda>d k. AList.update k v d) d ks) = fst ` set d \<union> set ks"
  by (induction ks arbitrary: d) (auto simp: dom_update)

lemma fromkeys_keys: "fst ` set (dict_fromkeys ks v) = set ks"
  by (simp add: dict_fromkeys_def fromkeys_keys_aux)

lemma fromkeys_values_aux:
  "(\<forall>item \<in> set d. snd item = v)
     \<Longrightarrow> \<forall>item \<in> set (foldl (\<lambda>d k. AList.update k v d) d ks). snd item = v"
proof (induction ks arbitrary: d)
  case Nil
  then show ?case by simp
next
  case (Cons k ks)
  have "\<forall>item \<in> set (AList.update k v d). snd item = v"
    using Cons.prems by (induction d) auto
  from Cons.IH [OF this] show ?case by simp
qed

lemma fromkeys_values: "\<forall>item \<in> set (dict_fromkeys ks v). snd item = v"
  unfolding dict_fromkeys_def by (rule fromkeys_values_aux) simp

lemma increase_seeded:
  assumes "map_of offer ''block_dc_mc'' = Some (dict_fromkeys ts (PList [PFloat 0]))"
  shows "\<exists>new_block. increase_discharging_offers offer 1
             = Inr (AList.update ''block_dc_mc'' new_block offer)
           \<and> (\<forall>t \<in> set ts. map_of new_block t = Some (PList [PFloat 1]))"
proof -
  define new_block where "new_block = foldl (\<lambda>d k. AList.update k (PList [PFloat 1]) d) []
      (map fst (dict_fromkeys ts (PList [PFloat 0])))"
  have "increase_discharging_offers offer 1 = Inr (AList.update ''block_dc_mc'' new_block offer)"
    unfolding increase_discharging_offers_def dict_get_def assms new_block_def
    by (simp add: ebind_simps shift_block_constant [OF fromkeys_values shift_seed])
  moreover have "\<forall>t \<in> set ts. map_of new_block t = Some (PList [PFloat 1])"
    unfolding new_block_def by (simp add: map_of_fromkeys_aux fromkeys_keys)
  ultimately show ?thesis by blast
qed


text \<open>
  C4, as the code has it. In a real-time invocation (the market type contains
  \<^verbatim>\<open>RTM\<close> and not \<^verbatim>\<open>DAM\<close>) over a non-empty horizon, with a ledger that holds no
  order for any period and a binner that returns on the SoC lists: for every period
  of the horizon, the offer \<^verbatim>\<open>_real_time_offer\<close> returns has a charge curve and a
  discharge curve of exactly one entry, the full capacity (\<^verbatim>\<open>chmax\<close>, \<^verbatim>\<open>dcmax\<close>) at
  price 0. The offer the invocation writes is that offer after
  \<^verbatim>\<open>_increase_discharging_offers(offer, 1)\<close>: the charge curve is unchanged, the
  discharge curve is the single entry \<^verbatim>\<open>dcmax\<close> at price 1.
\<close>

theorem empty_ledger_offer:
  fixes ag :: agent and timestamps :: "('t::linorder) list"
  assumes market: "\<not> contains ''DAM'' market_type" "contains ''RTM'' market_type"
      and horizon: "timestamps \<noteq> []" "t \<in> set timestamps"
      and empty: "\<forall>entry \<in> set ledger. snd entry = []"
      and binner: "collate (map PFloat (fst (soc_raw ag (rt_init ag initial_soc :: 't rt_state) [])))
                           (map PFloat (snd (soc_raw ag (rt_init ag initial_soc :: 't rt_state) [])))
                     = Inr soc_offer"
  shows "offer_curve (real_time_offer ag collate timestamps ledger initial_soc) ''block_ch_mq'' t
           = Inr (PList [PFloat (chmax ag)])
       \<and> offer_curve (real_time_offer ag collate timestamps ledger initial_soc) ''block_ch_mc'' t
           = Inr (PList [PFloat 0])
       \<and> offer_curve (real_time_offer ag collate timestamps ledger initial_soc) ''block_dc_mq'' t
           = Inr (PList [PFloat (dcmax ag)])
       \<and> offer_curve (real_time_offer ag collate timestamps ledger initial_soc) ''block_dc_mc'' t
           = Inr (PList [PFloat 0])
       \<and> offer_curve (make_me_an_offer ag collate compute_offers market_type timestamps ledger
                         initial_soc) ''block_ch_mq'' t
           = Inr (PList [PFloat (chmax ag)])
       \<and> offer_curve (make_me_an_offer ag collate compute_offers market_type timestamps ledger
                         initial_soc) ''block_ch_mc'' t
           = Inr (PList [PFloat 0])
       \<and> offer_curve (make_me_an_offer ag collate compute_offers market_type timestamps ledger
                         initial_soc) ''block_dc_mq'' t
           = Inr (PList [PFloat (dcmax ag)])
       \<and> offer_curve (make_me_an_offer ag collate compute_offers market_type timestamps ledger
                         initial_soc) ''block_dc_mc'' t
           = Inr (PList [PFloat 1])"
proof -
  from horizon(1) obtain t_end where t_end: "py_max timestamps = Inr t_end"
    using py_max_nonempty by blast
  define s1 where "s1 = ledger_walk ag ledger timestamps (rt_init ag initial_soc)"
  have "soc_raw ag s1 [] = soc_raw ag (rt_init ag initial_soc :: 't rt_state) []"
    unfolding s1_def by (rule soc_raw_cong) (simp_all add: ledger_walk_soc_empty [OF empty])
  then have raw: "soc_raw ag s1 (post_market_sorted (post_market_ledger ledger t_end))
      = (fst (soc_raw ag (rt_init ag initial_soc :: 't rt_state) []),
         snd (soc_raw ag (rt_init ag initial_soc :: 't rt_state) []))"
    by (simp add: post_market_sorted_empty [OF empty])
  define base :: "'t offer" where "base =
      [(''block_ch_mc'', dict_fromkeys timestamps (PList [PFloat 0])),
       (''block_ch_mq'', dict_fromkeys timestamps (PList [PFloat (chmax ag)])),
       (''block_dc_mc'', dict_fromkeys timestamps (PList [PFloat 0])),
       (''block_dc_mq'', dict_fromkeys timestamps (PList [PFloat (dcmax ag)])),
       (''block_soc_mc'', [(t_end, PList (snd soc_offer))]),
       (''block_soc_mq'', [(t_end, PList (fst soc_offer))])]"
  define offer where "offer = dict_update_all (dict_update_all base
      (default_reserve_offer timestamps)) (default_dispatch_capacity ag timestamps)"
  have run: "real_time_offer ag collate timestamps ledger initial_soc = Inr offer"
    unfolding real_time_offer_unfold t_end
    by (simp add: ebind_simps s1_def [symmetric] raw binner offer_def base_def case_prod_beta)
  have look: "map_of offer ''block_ch_mq'' = Some (dict_fromkeys timestamps (PList [PFloat (chmax ag)]))"
      "map_of offer ''block_ch_mc'' = Some (dict_fromkeys timestamps (PList [PFloat 0]))"
      "map_of offer ''block_dc_mq'' = Some (dict_fromkeys timestamps (PList [PFloat (dcmax ag)]))"
      "map_of offer ''block_dc_mc'' = Some (dict_fromkeys timestamps (PList [PFloat 0]))"
    unfolding offer_def by (simp_all add: rt_offer_lookup base_def)
  have rt: "offer_curve (Inr offer) ''block_ch_mq'' t = Inr (PList [PFloat (chmax ag)])"
      "offer_curve (Inr offer) ''block_ch_mc'' t = Inr (PList [PFloat 0])"
      "offer_curve (Inr offer) ''block_dc_mq'' t = Inr (PList [PFloat (dcmax ag)])"
      "offer_curve (Inr offer) ''block_dc_mc'' t = Inr (PList [PFloat 0])"
    using horizon(2)
    by (simp_all add: offer_curve_def ebind_simps dict_get_def look map_of_fromkeys)
  from increase_seeded [OF look(4)] obtain new_block where
    inc: "increase_discharging_offers offer 1 = Inr (AList.update ''block_dc_mc'' new_block offer)"
    and nb: "\<forall>t \<in> set timestamps. map_of new_block t = Some (PList [PFloat 1])"
    by blast
  have logged: "py_index timestamps 0 = Inr (timestamps ! 0)"
    using horizon(1) by (simp add: py_index_def)
  have made: "make_me_an_offer ag collate compute_offers market_type timestamps ledger initial_soc
      = Inr (AList.update ''block_dc_mc'' new_block offer)"
    using market by (simp add: make_me_an_offer_def logged run ebind_simps inc)
  have final: "offer_curve (Inr (AList.update ''block_dc_mc'' new_block offer)) ''block_ch_mq'' t
        = Inr (PList [PFloat (chmax ag)])"
      "offer_curve (Inr (AList.update ''block_dc_mc'' new_block offer)) ''block_ch_mc'' t
        = Inr (PList [PFloat 0])"
      "offer_curve (Inr (AList.update ''block_dc_mc'' new_block offer)) ''block_dc_mq'' t
        = Inr (PList [PFloat (dcmax ag)])"
      "offer_curve (Inr (AList.update ''block_dc_mc'' new_block offer)) ''block_dc_mc'' t
        = Inr (PList [PFloat 1])"
    using horizon(2) nb
    by (simp_all add: offer_curve_def ebind_simps dict_get_def update_conv' look map_of_fromkeys)
  show ?thesis
    unfolding run made using rt final by blast
qed

theorem empty_ledger_offer_witness:
  "offer_curve (real_time_offer bandit pass_through [''202401010000'', ''202401010005'']
                  [(''202401010000'', [])] 300) ''block_ch_mq'' ''202401010005''
     = Inr (PList [PFloat (chmax bandit)])
   \<and> offer_curve (real_time_offer bandit pass_through [''202401010000'', ''202401010005'']
                  [(''202401010000'', [])] 300) ''block_ch_mc'' ''202401010005''
     = Inr (PList [PFloat 0])
   \<and> offer_curve (real_time_offer bandit pass_through [''202401010000'', ''202401010005'']
                  [(''202401010000'', [])] 300) ''block_dc_mq'' ''202401010005''
     = Inr (PList [PFloat (dcmax bandit)])
   \<and> offer_curve (real_time_offer bandit pass_through [''202401010000'', ''202401010005'']
                  [(''202401010000'', [])] 300) ''block_dc_mc'' ''202401010005''
     = Inr (PList [PFloat 0])
   \<and> offer_curve (make_me_an_offer bandit pass_through no_day_ahead ''RTM''
                  [''202401010000'', ''202401010005''] [(''202401010000'', [])] 300)
        ''block_ch_mq'' ''202401010005''
     = Inr (PList [PFloat (chmax bandit)])
   \<and> offer_curve (make_me_an_offer bandit pass_through no_day_ahead ''RTM''
                  [''202401010000'', ''202401010005''] [(''202401010000'', [])] 300)
        ''block_ch_mc'' ''202401010005''
     = Inr (PList [PFloat 0])
   \<and> offer_curve (make_me_an_offer bandit pass_through no_day_ahead ''RTM''
                  [''202401010000'', ''202401010005''] [(''202401010000'', [])] 300)
        ''block_dc_mq'' ''202401010005''
     = Inr (PList [PFloat (dcmax bandit)])
   \<and> offer_curve (make_me_an_offer bandit pass_through no_day_ahead ''RTM''
                  [''202401010000'', ''202401010005''] [(''202401010000'', [])] 300)
        ''block_dc_mc'' ''202401010005''
     = Inr (PList [PFloat 1])"
proof -
  have market: "\<not> contains ''DAM'' ''RTM''" "contains ''RTM'' ''RTM''"
    by simp_all
  have horizon: "[''202401010000'', ''202401010005''] \<noteq> []"
      "''202401010005'' \<in> set [''202401010000'', ''202401010005'']"
    by simp_all
  have empty: "\<forall>entry \<in> set [(''202401010000'', [] :: (real \<times> real) list)]. snd entry = []"
    by simp
  have binner: "pass_through
      (map PFloat (fst (soc_raw bandit (rt_init bandit 300 :: string rt_state) [])))
      (map PFloat (snd (soc_raw bandit (rt_init bandit 300 :: string rt_state) [])))
    = Inr (map PFloat (fst (soc_raw bandit (rt_init bandit 300 :: string rt_state) [])),
           map PFloat (snd (soc_raw bandit (rt_init bandit 300 :: string rt_state) [])))"
    by (simp add: pass_through_def)
  show ?thesis
    by (rule empty_ledger_offer [where collate = pass_through and ag = bandit
          and initial_soc = 300 and compute_offers = no_day_ahead,
          OF market horizon empty binner])
qed

text \<open>
  C4, as stated, fails for the discharge curve of the offer the invocation produces:
  with an empty ledger its single entry is priced at 1, not at 0.
\<close>

theorem empty_ledger_discharge_price_is_one:
  "offer_curve (make_me_an_offer bandit pass_through no_day_ahead ''RTM''
                  [''202401010000'', ''202401010005''] [] 300)
      ''block_dc_mc'' ''202401010000''
     = Inr (PList [PFloat 1])
   \<and> offer_curve (make_me_an_offer bandit pass_through no_day_ahead ''RTM''
                  [''202401010000'', ''202401010005''] [] 300)
      ''block_dc_mc'' ''202401010000''
     \<noteq> Inr (PList [PFloat 0])"
  by code_simp

section \<open>Claims about offer formatting\<close>

lemma emap_numbers:
  "\<forall>x \<in> set vs. is_number x \<Longrightarrow>
     emap (\<lambda>mc. py_add mc adjustment) vs
       = Inr (map (\<lambda>x. case x of
                         PFloat r \<Rightarrow> PFloat (r + of_int adjustment)
                       | other \<Rightarrow> PInt (int_value other + adjustment)) vs)"
proof (induction vs)
  case Nil
  show ?case by simp
next
  case (Cons v vs)
  from Cons.prems have "is_number v" by simp
  then have "py_add v adjustment
      = Inr (case v of
               PFloat r \<Rightarrow> PFloat (r + of_int adjustment)
             | other \<Rightarrow> PInt (int_value other + adjustment))"
    by (cases v) (simp_all add: is_number_def py_add_def int_value_def)
  moreover from Cons have "emap (\<lambda>mc. py_add mc adjustment) vs
      = Inr (map (\<lambda>x. case x of
                        PFloat r \<Rightarrow> PFloat (r + of_int adjustment)
                      | other \<Rightarrow> PInt (int_value other + adjustment)) vs)"
    by simp
  ultimately show ?case by simp
qed

text \<open>
  C8, as the code has it. For every offer block and every period whose cost \<open>mc\<close> and
  quantity \<open>mq\<close> exist, with a binner that raises no type error of its own:
  \<^verbatim>\<open>_offer_to_dicts\<close> raises a type error at the period exactly if the two values are
  neither both numbers (\<^verbatim>\<open>int\<close>, \<^verbatim>\<open>float\<close>, \<^verbatim>\<open>bool\<close>) nor both lists, so also for
  a number paired with a list; the diagnostic names the types of the two values and
  not the period; a pair of numbers is stored unchanged whatever the binner is, so
  without a call of it. \<^verbatim>\<open>_increase_discharging_offers\<close> turns an \<^verbatim>\<open>int\<close> into the
  float of the sum, replaces a list of numbers by the list of the sums of each
  element and the adjustment (a float stays a float, an \<^verbatim>\<open>int\<close> or \<^verbatim>\<open>bool\<close> gives
  an \<^verbatim>\<open>int\<close>), and raises a type error on a value that is neither a number nor a
  list.
\<close>

theorem offer_type_errors:
  assumes vals: "subscript mc_list i = Inr mc" "subscript mq_list i = Inr mq"
      and no_type_error: "\<forall>mqs mcs msg. collate mqs mcs \<noteq> Inl (TypeError msg)"
  shows "((\<exists>msg. offer_period collate mq_list mc_list dicts (i, time) = Inl (TypeError msg))
          \<longleftrightarrow> \<not> (is_number mc \<and> is_number mq) \<and> \<not> (is_list mc \<and> is_list mq))
       \<and> (\<not> (is_number mc \<and> is_number mq) \<and> \<not> (is_list mc \<and> is_list mq) \<longrightarrow>
            offer_period collate mq_list mc_list dicts (i, time)
              = Inl (TypeError (''unsupported charge offer types: mc is ''
                                 @ class_repr (type_name mc) @ '', mq is ''
                                 @ class_repr (type_name mq))))
       \<and> (is_number mc \<and> is_number mq \<longrightarrow>
            offer_period any_binner mq_list mc_list dicts (i, time)
              = Inr (AList.update time mq (fst dicts), AList.update time mc (snd dicts)))
       \<and> (is_int v \<longrightarrow>
            shift_offer adjustment v = Inr (PFloat (of_int (int_value v + adjustment))))
       \<and> (v = PList vs \<and> (\<forall>x \<in> set vs. is_number x) \<longrightarrow>
            shift_offer adjustment v
              = Inr (PList (map (\<lambda>x. case x of
                                      PFloat r \<Rightarrow> PFloat (r + of_int adjustment)
                                    | other \<Rightarrow> PInt (int_value other + adjustment)) vs)))
       \<and> (\<not> is_number v \<and> \<not> is_list v \<longrightarrow>
            (\<exists>msg. shift_offer adjustment v = Inl (TypeError msg)))"
proof -
  have numbers: "offer_period any_binner mq_list mc_list dicts (i, time)
      = Inr (AList.update time mq (fst dicts), AList.update time mc (snd dicts))"
    if "is_number mc \<and> is_number mq" for any_binner
    using that vals by (simp add: offer_period_def ebind_simps)
  have neither: "offer_period collate mq_list mc_list dicts (i, time)
      = Inl (TypeError (''unsupported charge offer types: mc is ''
                         @ class_repr (type_name mc) @ '', mq is ''
                         @ class_repr (type_name mq)))"
    if "\<not> (is_number mc \<and> is_number mq) \<and> \<not> (is_list mc \<and> is_list mq)"
    using that vals
    by (cases mc; cases mq) (simp_all add: offer_period_def ebind_simps is_list_def)
  have lists: "\<nexists>msg. offer_period collate mq_list mc_list dicts (i, time) = Inl (TypeError msg)"
    if "is_list mc \<and> is_list mq"
  proof -
    from that obtain mcs mqs where l: "mc = PList mcs" "mq = PList mqs"
      by (cases mc; cases mq) (auto simp: is_list_def)
    show ?thesis
    proof (cases "collate mqs mcs")
      case (Inl e)
      with no_type_error have "\<nexists>msg. e = TypeError msg" by metis
      with Inl l vals show ?thesis
        by (auto simp: offer_period_def ebind_simps is_number_def)
    next
      case (Inr offer)
      with l vals show ?thesis
        by (auto simp: offer_period_def ebind_simps is_number_def)
    qed
  qed
  have iff: "(\<exists>msg. offer_period collate mq_list mc_list dicts (i, time) = Inl (TypeError msg))
          \<longleftrightarrow> \<not> (is_number mc \<and> is_number mq) \<and> \<not> (is_list mc \<and> is_list mq)"
    using numbers [of collate] neither lists by auto
  have ints: "shift_offer adjustment v = Inr (PFloat (of_int (int_value v + adjustment)))"
    if "is_int v"
    using that by (simp add: shift_offer_def)
  have shifted: "shift_offer adjustment v
      = Inr (PList (map (\<lambda>x. case x of
                              PFloat r \<Rightarrow> PFloat (r + of_int adjustment)
                            | other \<Rightarrow> PInt (int_value other + adjustment)) vs))"
    if "v = PList vs \<and> (\<forall>x \<in> set vs. is_number x)"
  proof -
    from that have v: "v = PList vs" and n: "\<forall>x \<in> set vs. is_number x" by blast+
    from v show ?thesis
      by (simp add: shift_offer_def is_int_def ebind_simps emap_numbers [OF n])
  qed
  have other: "\<exists>msg. shift_offer adjustment v = Inl (TypeError msg)"
    if "\<not> is_number v \<and> \<not> is_list v"
    using that by (cases v) (simp_all add: shift_offer_def is_int_def is_number_def is_list_def)
  from iff neither numbers [of any_binner] ints shifted other show ?thesis by blast
qed

theorem offer_type_errors_witness:
  "offer_period pass_through (Some [PFloat 10, PList [PInt 1]]) (Some [PFloat (5 / 2), PInt 1])
      ([], []) (0, ''202401010000'')
     = Inr ([(''202401010000'', PFloat 10)], [(''202401010000'', PFloat (5 / 2))])
   \<and> offer_period pass_through (Some [PFloat 10, PList [PInt 1]]) (Some [PFloat (5 / 2), PInt 1])
      ([], []) (1, ''202401010005'')
     = Inl (TypeError (''unsupported charge offer types: mc is '' @ class_repr ''int''
                        @ '', mq is '' @ class_repr ''list''))
   \<and> shift_offer 1 (PInt 3) = Inr (PFloat 4)
   \<and> shift_offer 1 (PList [PFloat 0, PInt 2, PBool True])
       = Inr (PList [PFloat 1, PInt 3, PInt 2])
   \<and> isl (shift_offer 1 (PStr ''0''))"
proof -
  define mq_list where "mq_list = Some [PFloat 10, PList [PInt 1]]"
  define mc_list where "mc_list = Some [PFloat (5 / 2), PInt 1]"
  have no_type_error: "\<forall>mqs mcs msg. pass_through mqs mcs \<noteq> Inl (TypeError msg)"
    by (simp add: pass_through_def)
  have v0: "subscript mc_list 0 = Inr (PFloat (5 / 2))" "subscript mq_list 0 = Inr (PFloat 10)"
    by (simp_all add: mc_list_def mq_list_def subscript_def py_index_def)
  have v1: "subscript mc_list 1 = Inr (PInt 1)" "subscript mq_list 1 = Inr (PList [PInt 1])"
    by (simp_all add: mc_list_def mq_list_def subscript_def py_index_def)
  have n0: "is_number (PFloat (5 / 2)) \<and> is_number (PFloat 10)"
    by (simp add: is_number_def)
  have n1: "\<not> (is_number (PInt 1) \<and> is_number (PList [PInt 1]))
            \<and> \<not> (is_list (PInt 1) \<and> is_list (PList [PInt 1]))"
    by (simp add: is_number_def is_list_def)
  have i3: "is_int (PInt 3)" by (simp add: is_int_def)
  have l2: "PList [PFloat 0, PInt 2, PBool True] = PList [PFloat 0, PInt 2, PBool True]
            \<and> (\<forall>x \<in> set [PFloat 0, PInt 2, PBool True]. is_number x)"
    by (simp add: is_number_def)
  have s0: "\<not> is_number (PStr ''0'') \<and> \<not> is_list (PStr ''0'')"
    by (simp add: is_number_def is_list_def)
  note a = offer_type_errors [OF v0 no_type_error, where dicts = "([], [])"
      and time = "''202401010000''" and any_binner = pass_through and v = "PInt 3"
      and adjustment = 1 and vs = "[]"]
  note b = offer_type_errors [OF v1 no_type_error, where dicts = "([], [])"
      and time = "''202401010005''" and any_binner = pass_through
      and v = "PList [PFloat 0, PInt 2, PBool True]" and adjustment = 1
      and vs = "[PFloat 0, PInt 2, PBool True]"]
  note c = offer_type_errors [OF v1 no_type_error, where dicts = "([], [])"
      and time = "''202401010005''" and any_binner = pass_through and v = "PStr ''0''"
      and adjustment = 1 and vs = "[]"]
  have first: "offer_period pass_through mq_list mc_list ([], []) (0, ''202401010000'')
      = Inr (AList.update ''202401010000'' (PFloat 10) [],
             AList.update ''202401010000'' (PFloat (5 / 2)) [])"
    using a [THEN conjunct2, THEN conjunct2, THEN conjunct1, THEN mp, OF n0] by simp
  have second: "offer_period pass_through mq_list mc_list ([], []) (1, ''202401010005'')
      = Inl (TypeError (''unsupported charge offer types: mc is ''
                         @ class_repr (type_name (PInt 1)) @ '', mq is ''
                         @ class_repr (type_name (PList [PInt 1]))))"
    by (rule b [THEN conjunct2, THEN conjunct1, THEN mp, OF n1])
  have third: "shift_offer 1 (PInt 3) = Inr (PFloat (of_int (int_value (PInt 3) + 1)))"
    by (rule a [THEN conjunct2, THEN conjunct2, THEN conjunct2, THEN conjunct1, THEN mp, OF i3])
  have fourth: "shift_offer 1 (PList [PFloat 0, PInt 2, PBool True])
      = Inr (PList (map (\<lambda>x. case x of
                              PFloat r \<Rightarrow> PFloat (r + of_int 1)
                            | other \<Rightarrow> PInt (int_value other + 1))
                     [PFloat 0, PInt 2, PBool True]))"
    by (rule b [THEN conjunct2, THEN conjunct2, THEN conjunct2, THEN conjunct2, THEN conjunct1,
          THEN mp, OF l2])
  have fifth: "\<exists>msg. shift_offer 1 (PStr ''0'') = Inl (TypeError msg)"
    by (rule c [THEN conjunct2, THEN conjunct2, THEN conjunct2, THEN conjunct2, THEN conjunct2,
          THEN mp, OF s0])
  from first second third fourth fifth show ?thesis
    unfolding mq_list_def mc_list_def
    by (auto simp: type_name_def int_value_def)
qed


text \<open>
  C8, as stated, fails: a period whose cost is the number 1 and whose quantity is the
  list \<^verbatim>\<open>[1]\<close> has no value that is neither a number nor a list, and
  \<^verbatim>\<open>_offer_to_dicts\<close> raises a type error; the diagnostic is the same for the period
  \<^verbatim>\<open>202401010000\<close> and for the period \<^verbatim>\<open>202401010005\<close>, it does not name the period.
\<close>

theorem mixed_offer_types_raise:
  "offer_to_dicts pass_through [''202401010000''] (Some [PList [PInt 1]]) (Some [PInt 1])
     = Inl (TypeError (''unsupported charge offer types: mc is '' @ class_repr ''int''
                        @ '', mq is '' @ class_repr ''list''))
   \<and> offer_to_dicts pass_through [''202401010005''] (Some [PList [PInt 1]]) (Some [PInt 1])
     = Inl (TypeError (''unsupported charge offer types: mc is '' @ class_repr ''int''
                        @ '', mq is '' @ class_repr ''list''))
   \<and> is_number (PInt 1) \<and> is_list (PList [PInt 1])"
  by code_simp

end
